theory Spec2Isabelle
  imports Main "HOL-Library.Char_ord" "HOL-Library.List_Lexorder"
begin

section \<open>The chat relay of \<^verbatim>\<open>src/app.js\<close>\<close>

text \<open>
  The server keeps two in-memory maps (\<^verbatim>\<open>activeUsers\<close>, \<^verbatim>\<open>userSockets\<close>), talks to a
  Firestore document store and to Socket.IO. Every handler is embedded as a function from
  the server state to an outcome; the state carries a trace of the effects in the order
  the handler performs them. A handler runs from its first to its last statement without
  another handler in between (the \<^verbatim>\<open>await\<close> points are not interleaving points here).

  JavaScript strings are \<^typ>\<open>string\<close>, a character being one code unit below 256;
  a payload field is an optional string (\<open>None\<close> for \<^verbatim>\<open>undefined\<close>), a client
  timestamp an optional number, and a whole payload may be absent. A connection is a
  handle of its own type; Socket.IO gives it an id, a string, when it connects, and puts
  it into the room of that name. Whether a call to the store throws, the id it gives a
  new message and the server's clock are inputs of each request. The assignments to
  \<^verbatim>\<open>socket.userId\<close> and \<^verbatim>\<open>socket.chatId\<close>, which nothing reads, and the
  console output are left out.
\<close>

subsection \<open>Values, payloads, store records\<close>

type_synonym sid = nat

datatype jsval =
    JNull
  | JBool bool
  | JNum nat
  | JStr string
  | JArr "jsval list"
  | JObj "(string \<times> jsval) list"

record session =
  userId :: string
  chatId :: string

record join_data =
  j_userId :: "string option"
  j_chatId :: "string option"

record send_data =
  message :: "string option"
  timestamp :: "nat option"

record typing_data =
  isTyping :: bool

record chat =
  participants :: "string list"
  createdAt :: nat
  lastMessage :: "string option"
  lastMessageAt :: "nat option"

record msg =
  m_id :: string
  m_senderId :: string
  m_message :: string
  m_timestamp :: nat
  m_chatId :: string

text \<open>What the environment decides for one request: store faults, generated ids, clock.\<close>

datatype post_fault = PostOk | PostGetThrows | PostSetThrows

record post_env =
  p_fault :: post_fault
  p_now :: nat

datatype send_fault = SendOk | AddThrows | ReadBackThrows | UpdateThrows

record send_env =
  s_fault :: send_fault
  s_newId :: string
  s_addTime :: nat
  s_updateTime :: nat

subsection \<open>State and effects\<close>

datatype effect =
    SocketJoin sid string
  | ActiveUsersSet string sid
  | UserSocketsSet sid session
  | ActiveUsersDelete string
  | UserSocketsDelete sid
  | ChatsSet string chat
  | ChatsUpdate string string nat
  | MessagesAdd msg
  | Emit sid string jsval
  | Broadcast string "sid set" string jsval
  | HttpResponse nat jsval

record state =
  activeUsers :: "string \<rightharpoonup> sid"
  userSockets :: "sid \<rightharpoonup> session"
  rooms :: "string \<Rightarrow> sid set"
  chats :: "string \<rightharpoonup> chat"
  messages :: "msg list"
  trace :: "effect list"

text \<open>A handler returns, or an exception leaves it; either way with the state it has
  reached. An exception that leaves a handler is not caught by anyone.\<close>

datatype outcome = Returned state | Threw state

definition init_state :: state where
  "init_state = \<lparr>activeUsers = Map.empty, userSockets = Map.empty, rooms = (\<lambda>_. {}),
     chats = Map.empty, messages = [], trace = []\<rparr>"

fun state_of :: "outcome \<Rightarrow> state" where
  "state_of (Returned st) = st"
| "state_of (Threw st) = st"

fun threw :: "outcome \<Rightarrow> bool" where
  "threw (Returned st) = False"
| "threw (Threw st) = True"

text \<open>The effects between a state and a later one.\<close>

definition emitted :: "state \<Rightarrow> state \<Rightarrow> effect list" where
  "emitted st st' = drop (length (trace st)) (trace st')"

subsection \<open>JavaScript library functions\<close>

text \<open>\<^verbatim>\<open>String.prototype.trim\<close> removes white space and line terminators from both
  ends; below 256 these are the code units 9 to 13, 32 and 160.\<close>

definition js_whitespace :: "char \<Rightarrow> bool" where
  "js_whitespace c = (of_char c \<in> {9, 10, 11, 12, 13, 32, 160 :: nat})"

definition trim :: "string \<Rightarrow> string" where
  "trim s = rev (dropWhile js_whitespace (rev (dropWhile js_whitespace s)))"

fun js_join :: "string \<Rightarrow> string list \<Rightarrow> string" where
  "js_join sep [] = []"
| "js_join sep [x] = x"
| "js_join sep (x # y # ys) = x @ sep @ js_join sep (y # ys)"

text \<open>A field that is a string or \<^verbatim>\<open>undefined\<close>: \<open>falsy\<close> is \<^verbatim>\<open>!v\<close>, and \<open>str\<close>
  reads the string of a field (it is only applied past a \<open>falsy\<close> test).\<close>

definition falsy :: "string option \<Rightarrow> bool" where
  "falsy v = (case v of None \<Rightarrow> True | Some s \<Rightarrow> s = [])"

definition str :: "string option \<Rightarrow> string" where
  "str v = (case v of None \<Rightarrow> [] | Some s \<Rightarrow> s)"

subsection \<open>Primitive effects\<close>

text \<open>Socket.IO: \<^verbatim>\<open>socket.join\<close>, \<^verbatim>\<open>socket.emit\<close>, \<^verbatim>\<open>socket.to(room).emit\<close>,
  \<^verbatim>\<open>io.to(room).emit\<close>, and the leaving of every room that precedes the
  \<^verbatim>\<open>disconnect\<close> event. A room broadcast resolves its recipients from the rooms at
  the moment it is made; a room holds the sockets that joined it and the socket, if any,
  whose own id is its name.\<close>

definition socket_join :: "sid \<Rightarrow> string \<Rightarrow> state \<Rightarrow> state" where
  "socket_join k room st =
     st\<lparr>rooms := (rooms st)(room := insert k (rooms st room)),
        trace := trace st @ [SocketJoin k room]\<rparr>"

definition leave_all :: "sid \<Rightarrow> state \<Rightarrow> state" where
  "leave_all k st = st\<lparr>rooms := (\<lambda>room. rooms st room - {k})\<rparr>"

definition socket_emit :: "sid \<Rightarrow> string \<Rightarrow> jsval \<Rightarrow> state \<Rightarrow> state" where
  "socket_emit k name payload st = st\<lparr>trace := trace st @ [Emit k name payload]\<rparr>"

definition socket_to_emit :: "sid \<Rightarrow> string \<Rightarrow> string \<Rightarrow> jsval \<Rightarrow> state \<Rightarrow> state" where
  "socket_to_emit k room name payload st =
     st\<lparr>trace := trace st @ [Broadcast room (rooms st room - {k}) name payload]\<rparr>"

definition io_to_emit :: "string \<Rightarrow> string \<Rightarrow> jsval \<Rightarrow> state \<Rightarrow> state" where
  "io_to_emit room name payload st =
     st\<lparr>trace := trace st @ [Broadcast room (rooms st room) name payload]\<rparr>"

text \<open>The two maps.\<close>

definition activeUsers_set :: "string \<Rightarrow> sid \<Rightarrow> state \<Rightarrow> state" where
  "activeUsers_set u k st =
     st\<lparr>activeUsers := (activeUsers st)(u \<mapsto> k), trace := trace st @ [ActiveUsersSet u k]\<rparr>"

definition userSockets_set :: "sid \<Rightarrow> session \<Rightarrow> state \<Rightarrow> state" where
  "userSockets_set k s st =
     st\<lparr>userSockets := (userSockets st)(k \<mapsto> s), trace := trace st @ [UserSocketsSet k s]\<rparr>"

definition activeUsers_delete :: "string \<Rightarrow> state \<Rightarrow> state" where
  "activeUsers_delete u st =
     st\<lparr>activeUsers := (activeUsers st)(u := None), trace := trace st @ [ActiveUsersDelete u]\<rparr>"

definition userSockets_delete :: "sid \<Rightarrow> state \<Rightarrow> state" where
  "userSockets_delete k st =
     st\<lparr>userSockets := (userSockets st)(k := None), trace := trace st @ [UserSocketsDelete k]\<rparr>"

text \<open>Firestore: \<^verbatim>\<open>doc(id).set\<close> on the chats, \<^verbatim>\<open>doc(id).update\<close> of a chat's summary
  (the caller checks that the document exists: an update of a missing document is
  rejected), \<^verbatim>\<open>add\<close> on the messages.\<close>

definition chats_set :: "string \<Rightarrow> chat \<Rightarrow> state \<Rightarrow> state" where
  "chats_set c d st = st\<lparr>chats := (chats st)(c \<mapsto> d), trace := trace st @ [ChatsSet c d]\<rparr>"

definition chat_doc_update :: "string \<Rightarrow> chat \<Rightarrow> string \<Rightarrow> nat \<Rightarrow> state \<Rightarrow> state" where
  "chat_doc_update c d text t st =
     st\<lparr>chats := (chats st)(c \<mapsto> d\<lparr>lastMessage := Some text, lastMessageAt := Some t\<rparr>),
        trace := trace st @ [ChatsUpdate c text t]\<rparr>"

definition messages_add :: "msg \<Rightarrow> state \<Rightarrow> state" where
  "messages_add m st = st\<lparr>messages := messages st @ [m], trace := trace st @ [MessagesAdd m]\<rparr>"

definition respond :: "nat \<Rightarrow> jsval \<Rightarrow> state \<Rightarrow> state" where
  "respond code body st = st\<lparr>trace := trace st @ [HttpResponse code body]\<rparr>"

subsection \<open>POST /api/chats\<close>

text \<open>The request body gives the participants, a list of strings or nothing.\<close>

text \<open>\<^verbatim>\<open>participants.sort()\<close> orders strings by their code units, the lexicographic
  order of \<^typ>\<open>string\<close>; \<^verbatim>\<open>join('_')\<close> puts the separator between the elements.\<close>

definition chat_id :: "string list \<Rightarrow> string" where
  "chat_id ps = js_join ''_'' (sort ps)"

definition chat_response :: "string list \<Rightarrow> jsval" where
  "chat_response ps =
     JObj [(''chatId'', JStr (chat_id ps)), (''participants'', JArr (map JStr (sort ps)))]"

definition post_chats_body :: "string list option \<Rightarrow> post_env \<Rightarrow> state \<Rightarrow> outcome" where
  "post_chats_body ps env st =
     (case ps of
        None \<Rightarrow>
          Returned (respond 400 (JObj [(''error'', JStr ''Exactly 2 participants required'')]) st)
      | Some xs \<Rightarrow>
          if length xs \<noteq> 2 then
            Returned (respond 400 (JObj [(''error'', JStr ''Exactly 2 participants required'')]) st)
          else if p_fault env = PostGetThrows then Threw st
          else (case chats st (chat_id xs) of
                  None \<Rightarrow>
                    if p_fault env = PostSetThrows then Threw st
                    else Returned (respond 200 (chat_response xs)
                           (chats_set (chat_id xs)
                              \<lparr>participants = sort xs, createdAt = p_now env,
                               lastMessage = None, lastMessageAt = None\<rparr> st))
                | Some d \<Rightarrow> Returned (respond 200 (chat_response xs) st)))"

definition post_chats :: "string list option \<Rightarrow> post_env \<Rightarrow> state \<Rightarrow> outcome" where
  "post_chats ps env st =
     (case post_chats_body ps env st of
        Returned st' \<Rightarrow> Returned st'
      | Threw st' \<Rightarrow>
          Returned (respond 500 (JObj [(''error'', JStr ''Failed to create chat'')]) st'))"

subsection \<open>The socket handlers\<close>

text \<open>A handler with a \<^verbatim>\<open>try\<close> block is a body, where an exception is the outcome
  \<open>Threw\<close>, and the handler proper, whose \<^verbatim>\<open>catch\<close> reports it to the socket.
  Destructuring an absent payload throws. The typing and disconnect handlers have no
  \<^verbatim>\<open>try\<close> block; the typing handler reads its payload only past the session test.\<close>

definition join_body :: "sid \<Rightarrow> join_data option \<Rightarrow> bool \<Rightarrow> state \<Rightarrow> outcome" where
  "join_body k data get_throws st =
     (case data of
        None \<Rightarrow> Threw st
      | Some d \<Rightarrow>
          if falsy (j_userId d) \<or> falsy (j_chatId d) then
            Returned (socket_emit k ''error'' (JStr ''UserId and chatId are required'') st)
          else if get_throws then Threw st
          else
            let u = str (j_userId d); c = str (j_chatId d)
            in (case chats st c of
                  None \<Rightarrow> Returned (socket_emit k ''error'' (JStr ''Chat not found'') st)
                | Some chatData \<Rightarrow>
                    if u \<notin> set (participants chatData) then
                      Returned (socket_emit k ''error'' (JStr ''Not authorized for this chat'') st)
                    else
                      Returned
                        (socket_emit k ''joined'' (JObj [(''chatId'', JStr c), (''userId'', JStr u)])
                        (socket_to_emit k c ''userOnline'' (JObj [(''userId'', JStr u)])
                        (userSockets_set k \<lparr>userId = u, chatId = c\<rparr>
                        (activeUsers_set u k
                        (socket_join k c st)))))))"

definition join_handler :: "sid \<Rightarrow> join_data option \<Rightarrow> bool \<Rightarrow> state \<Rightarrow> outcome" where
  "join_handler k data get_throws st =
     (case join_body k data get_throws st of
        Returned st' \<Rightarrow> Returned st'
      | Threw st' \<Rightarrow> Returned (socket_emit k ''error'' (JStr ''Failed to join chat'') st'))"

definition saved_message :: "msg \<Rightarrow> jsval" where
  "saved_message m =
     JObj [(''id'', JStr (m_id m)), (''senderId'', JStr (m_senderId m)),
           (''message'', JStr (m_message m)), (''timestamp'', JNum (m_timestamp m)),
           (''chatId'', JStr (m_chatId m))]"

definition message_data :: "session \<Rightarrow> string \<Rightarrow> nat option \<Rightarrow> send_env \<Rightarrow> msg" where
  "message_data s text ts env =
     \<lparr>m_id = s_newId env, m_senderId = userId s, m_message = trim text,
      m_timestamp = (case ts of None \<Rightarrow> s_addTime env
                     | Some t \<Rightarrow> if t = 0 then s_addTime env else t),
      m_chatId = chatId s\<rparr>"

definition send_body :: "sid \<Rightarrow> send_data option \<Rightarrow> send_env \<Rightarrow> state \<Rightarrow> outcome" where
  "send_body k data env st =
     (case data of
        None \<Rightarrow> Threw st
      | Some d \<Rightarrow>
          (case userSockets st k of
             None \<Rightarrow> Returned (socket_emit k ''error'' (JStr ''Not properly connected to chat'') st)
           | Some s \<Rightarrow>
               if userId s = [] \<or> chatId s = [] then
                 Returned (socket_emit k ''error'' (JStr ''Not properly connected to chat'') st)
               else if falsy (message d) \<or> trim (str (message d)) = [] then
                 Returned (socket_emit k ''error'' (JStr ''Message cannot be empty'') st)
               else if s_fault env = AddThrows then Threw st
               else
                 let m = message_data s (str (message d)) (timestamp d) env;
                     st1 = messages_add m st
                 in if s_fault env = ReadBackThrows then Threw st1
                    else (case chats st1 (chatId s) of
                            None \<Rightarrow> Threw st1
                          | Some cd \<Rightarrow>
                              if s_fault env = UpdateThrows then Threw st1
                              else Returned
                                (io_to_emit (chatId s) ''newMessage'' (saved_message m)
                                (chat_doc_update (chatId s) cd (trim (str (message d)))
                                   (s_updateTime env) st1)))))"

definition send_handler :: "sid \<Rightarrow> send_data option \<Rightarrow> send_env \<Rightarrow> state \<Rightarrow> outcome" where
  "send_handler k data env st =
     (case send_body k data env st of
        Returned st' \<Rightarrow> Returned st'
      | Threw st' \<Rightarrow> Returned (socket_emit k ''error'' (JStr ''Failed to send message'') st'))"

definition typing_handler :: "sid \<Rightarrow> typing_data option \<Rightarrow> state \<Rightarrow> outcome" where
  "typing_handler k data st =
     (case userSockets st k of
        None \<Rightarrow> Returned st
      | Some s \<Rightarrow>
          if userId s \<noteq> [] \<and> chatId s \<noteq> [] then
            (case data of
               None \<Rightarrow> Threw st
             | Some d \<Rightarrow>
                 Returned (socket_to_emit k (chatId s) ''userTyping''
                   (JObj [(''userId'', JStr (userId s)), (''isTyping'', JBool (isTyping d))]) st))
          else Returned st)"

definition disconnect_handler :: "sid \<Rightarrow> state \<Rightarrow> outcome" where
  "disconnect_handler k st =
     (case userSockets st k of
        None \<Rightarrow> Returned st
      | Some userData \<Rightarrow>
          Returned (socket_to_emit k (chatId userData) ''userOffline''
                      (JObj [(''userId'', JStr (userId userData))])
                   (userSockets_delete k
                   (activeUsers_delete (userId userData) st))))"

subsection \<open>Events and runs\<close>

datatype event =
    PostChats "string list option" post_env
  | Join sid "join_data option" bool
  | SendMessage sid "send_data option" send_env
  | Typing sid "typing_data option"
  | Disconnect sid

fun step :: "event \<Rightarrow> state \<Rightarrow> outcome" where
  "step (PostChats ps env) st = post_chats ps env st"
| "step (Join k data get_throws) st = join_handler k data get_throws st"
| "step (SendMessage k data env) st = send_handler k data env st"
| "step (Typing k data) st = typing_handler k data st"
| "step (Disconnect k) st = disconnect_handler k (leave_all k st)"

fun run :: "event list \<Rightarrow> state \<Rightarrow> outcome" where
  "run [] st = Returned st"
| "run (e # es) st = (case step e st of Returned st' \<Rightarrow> run es st' | Threw st' \<Rightarrow> Threw st')"

text \<open>Connections. When a socket connects, Socket.IO gives it its id and puts it into the
  room named by that id, which it leaves with every other room when it disconnects; the
  connection callback of the source registers the handlers and changes nothing. A run
  with connections interleaves them with the events of the clients.\<close>

datatype io_event = Connection sid string | Client event

definition on_connection :: "sid \<Rightarrow> string \<Rightarrow> state \<Rightarrow> state" where
  "on_connection k ident st = st\<lparr>rooms := (rooms st)(ident := insert k (rooms st ident))\<rparr>"

fun step_io :: "io_event \<Rightarrow> state \<Rightarrow> outcome" where
  "step_io (Connection k ident) st = Returned (on_connection k ident st)"
| "step_io (Client e) st = step e st"

fun run_io :: "io_event list \<Rightarrow> state \<Rightarrow> outcome" where
  "run_io [] st = Returned st"
| "run_io (e # es) st =
     (case step_io e st of Returned st' \<Rightarrow> run_io es st' | Threw st' \<Rightarrow> Threw st')"

subsection \<open>Predicates of the statements\<close>

text \<open>A join request passes validation: both fields present, the store answers, the chat
  exists and names the user among its participants.\<close>

definition join_accepts :: "join_data \<Rightarrow> bool \<Rightarrow> state \<Rightarrow> bool" where
  "join_accepts d get_throws st =
     (\<not> falsy (j_userId d) \<and> \<not> falsy (j_chatId d) \<and> \<not> get_throws \<and>
      (case chats st (str (j_chatId d)) of
         None \<Rightarrow> False
       | Some cd \<Rightarrow> str (j_userId d) \<in> set (participants cd)))"

text \<open>A send request goes through: the connection has a session with non-empty fields, the
  message is not empty after trimming, the store raises no fault and has the chat whose
  summary is updated.\<close>

definition send_accepts :: "sid \<Rightarrow> send_data \<Rightarrow> send_env \<Rightarrow> state \<Rightarrow> bool" where
  "send_accepts k d env st =
     (case userSockets st k of
        None \<Rightarrow> False
      | Some s \<Rightarrow>
          userId s \<noteq> [] \<and> chatId s \<noteq> [] \<and> \<not> falsy (message d) \<and>
          trim (str (message d)) \<noteq> [] \<and> s_fault env = SendOk \<and> chats st (chatId s) \<noteq> None)"

text \<open>The two maps in lockstep: the first maps a user to a connection exactly when the
  second maps that connection to a session of that user.\<close>

definition lockstep :: "state \<Rightarrow> bool" where
  "lockstep st =
     (\<forall>u k. (activeUsers st u = Some k) = (\<exists>c. userSockets st k = Some \<lparr>userId = u, chatId = c\<rparr>))"

text \<open>An accepted join takes over when its user is registered on another connection, or its
  connection is registered under another user.\<close>

fun takeover :: "event \<Rightarrow> state \<Rightarrow> bool" where
  "takeover (Join k (Some d) get_throws) st =
     (join_accepts d get_throws st \<and>
      ((case activeUsers st (str (j_userId d)) of None \<Rightarrow> False | Some k' \<Rightarrow> k' \<noteq> k) \<or>
       (case userSockets st k of None \<Rightarrow> False | Some s \<Rightarrow> userId s \<noteq> str (j_userId d))))"
| "takeover e st = False"

fun no_takeover :: "event list \<Rightarrow> state \<Rightarrow> bool" where
  "no_takeover [] st = True"
| "no_takeover (e # es) st =
     (\<not> takeover e st \<and>
      (case step e st of Returned st' \<Rightarrow> no_takeover es st' | Threw st' \<Rightarrow> True))"

text \<open>What holds of every state a run reaches from the initial one: a registered session has
  non-empty fields, its connection is in the room of its chat and the chat exists; a
  connection in a room has a session and entered the room by \<^verbatim>\<open>socket.join\<close>.\<close>

definition joined_inv :: "state \<Rightarrow> bool" where
  "joined_inv st =
     ((\<forall>k s. userSockets st k = Some s \<longrightarrow>
          userId s \<noteq> [] \<and> chatId s \<noteq> [] \<and> k \<in> rooms st (chatId s) \<and> chats st (chatId s) \<noteq> None)
      \<and> (\<forall>k c. k \<in> rooms st c \<longrightarrow>
            userSockets st k \<noteq> None \<and> SocketJoin k c \<in> set (trace st)))"

text \<open>The error payload the specification describes: an object with a kind and a message.\<close>

fun tagged_error :: "jsval \<Rightarrow> bool" where
  "tagged_error (JObj fs) = (map_of fs ''kind'' \<noteq> None \<and> map_of fs ''message'' \<noteq> None)"
| "tagged_error v = False"

section \<open>Properties\<close>

lemmas prim_defs = socket_join_def leave_all_def socket_emit_def socket_to_emit_def io_to_emit_def
  activeUsers_set_def userSockets_set_def activeUsers_delete_def userSockets_delete_def
  chats_set_def chat_doc_update_def messages_add_def respond_def

lemmas handler_defs = post_chats_def post_chats_body_def join_handler_def join_body_def
  send_handler_def send_body_def typing_handler_def disconnect_handler_def
  chat_id_def chat_response_def falsy_def str_def message_data_def saved_message_def

lemma emitted_append [simp]: "emitted st (st\<lparr>trace := trace st @ es\<rparr>) = es"
  by (simp add: emitted_def)

subsection \<open>Reachable states\<close>

lemma joined_inv_init: "joined_inv init_state"
  by (simp add: joined_inv_def init_state_def)

lemma joined_inv_post: "joined_inv st \<Longrightarrow> post_chats ps env st = Returned st' \<Longrightarrow> joined_inv st'"
  by (auto simp: joined_inv_def post_chats_def post_chats_body_def prim_defs
           split: option.splits if_splits)

lemma joined_inv_join:
  "joined_inv st \<Longrightarrow> join_handler k data g st = Returned st' \<Longrightarrow> joined_inv st'"
  by (auto simp: joined_inv_def join_handler_def join_body_def falsy_def str_def prim_defs Let_def
           split: option.splits if_splits)

lemma joined_inv_send:
  "joined_inv st \<Longrightarrow> send_handler k data env st = Returned st' \<Longrightarrow> joined_inv st'"
  by (auto simp: joined_inv_def send_handler_def send_body_def prim_defs Let_def
           split: option.splits if_splits)

lemma joined_inv_typing:
  "joined_inv st \<Longrightarrow> typing_handler k data st = Returned st' \<Longrightarrow> joined_inv st'"
  by (auto simp: joined_inv_def typing_handler_def prim_defs split: option.splits if_splits)

lemma joined_inv_disconnect:
  "joined_inv st \<Longrightarrow> disconnect_handler k (leave_all k st) = Returned st' \<Longrightarrow> joined_inv st'"
  by (auto simp: joined_inv_def disconnect_handler_def prim_defs split: option.splits if_splits)

lemma joined_inv_step: "joined_inv st \<Longrightarrow> step e st = Returned st' \<Longrightarrow> joined_inv st'"
  by (cases e)
     (auto intro: joined_inv_post joined_inv_join joined_inv_send joined_inv_typing
        joined_inv_disconnect)

lemma joined_inv_run: "joined_inv st \<Longrightarrow> run es st = Returned st' \<Longrightarrow> joined_inv st'"
  by (induction es arbitrary: st) (auto split: outcome.splits dest: joined_inv_step)

lemma joined_inv_reachable: "run es init_state = Returned st \<Longrightarrow> joined_inv st"
  using joined_inv_init by (rule joined_inv_run)

subsection \<open>Chat creation\<close>

lemma sort_pair: "sort [a, b] = (if a \<le> b then [a, b] else [b, a])" for a b :: string
  by simp

lemma sort_pair_swap: "sort [a, b] = sort [b, a]" for a b :: string
  by (auto simp: sort_pair)

lemma chat_id_swap: "chat_id [a, b] = chat_id [b, a]"
  unfolding chat_id_def by (simp only: sort_pair_swap [of a b])

lemma chat_response_swap: "chat_response [a, b] = chat_response [b, a]"
  unfolding chat_response_def by (simp only: sort_pair_swap [of a b] chat_id_swap [of a b])

lemma post_chats_swap: "post_chats (Some [a, b]) env st = post_chats (Some [b, a]) env st"
  unfolding post_chats_def post_chats_body_def
  by (simp only: sort_pair_swap [of a b] chat_id_swap [of a b] chat_response_swap [of a b]
        option.case list.size)

lemma post_chats_returns: "\<exists>st'. post_chats ps env st = Returned st'"
  by (auto simp: post_chats_def post_chats_body_def split: option.splits)

lemma post_chats_dom:
  "post_chats (Some xs) env st = Returned st' \<Longrightarrow>
     dom (chats st') \<subseteq> insert (chat_id xs) (dom (chats st))"
  by (auto simp: post_chats_def post_chats_body_def prim_defs split: option.splits if_splits)

lemma post_chats_map_le:
  "post_chats (Some xs) env st = Returned st' \<Longrightarrow> chats st \<subseteq>\<^sub>m chats st'"
  by (auto simp: post_chats_def post_chats_body_def prim_defs map_le_def
           split: option.splits if_splits)

lemma post_chats_created:
  "length xs = 2 \<Longrightarrow> p_fault env = PostOk \<Longrightarrow> post_chats (Some xs) env st = Returned st' \<Longrightarrow>
     chats st' (chat_id xs) \<noteq> None"
  by (auto simp: post_chats_def post_chats_body_def prim_defs split: option.splits if_splits)

lemma post_chats_existing:
  "length xs = 2 \<Longrightarrow> chats st (chat_id xs) \<noteq> None \<Longrightarrow> p_fault env \<noteq> PostGetThrows \<Longrightarrow>
     post_chats (Some xs) env st =
       Returned (st\<lparr>trace := trace st @ [HttpResponse 200 (chat_response xs)]\<rparr>)"
  by (auto simp: post_chats_def post_chats_body_def prim_defs split: option.splits if_splits)

lemma post_chats_ok:
  assumes "p_fault env = PostOk"
  shows "post_chats (Some [a, b]) env st =
     Returned (st\<lparr>chats := (case chats st (chat_id [a, b]) of
                   None \<Rightarrow> (chats st)(chat_id [a, b] \<mapsto>
                     \<lparr>participants = (if a \<le> b then [a, b] else [b, a]), createdAt = p_now env,
                      lastMessage = None, lastMessageAt = None\<rparr>)
                 | Some d \<Rightarrow> chats st),
               trace := trace st @
                 (case chats st (chat_id [a, b]) of
                    None \<Rightarrow> [ChatsSet (chat_id [a, b])
                      \<lparr>participants = (if a \<le> b then [a, b] else [b, a]), createdAt = p_now env,
                       lastMessage = None, lastMessageAt = None\<rparr>]
                  | Some d \<Rightarrow> []) @
                 [HttpResponse 200
                    (JObj [(''chatId'', JStr (chat_id [a, b])),
                           (''participants'',
                            JArr (if a \<le> b then [JStr a, JStr b] else [JStr b, JStr a]))])]\<rparr>)"
  using assms
  by (auto simp: post_chats_def post_chats_body_def chat_response_def prim_defs
           split: option.splits)

lemma chat_response_pair:
  "chat_response [a, b] =
     JObj [(''chatId'', JStr (if a \<le> b then a @ ''_'' @ b else b @ ''_'' @ a)),
           (''participants'', JArr (if a \<le> b then [JStr a, JStr b] else [JStr b, JStr a]))]"
  by (simp add: chat_response_def chat_id_def)

text \<open>
  C6. For all participants \<open>a\<close> and \<open>b\<close>, a creation request for \<open>[a, b]\<close> and one for
  \<open>[b, a]\<close> compute the same chat id, which is the smaller of the two, the separator
  \<open>_\<close>, and the larger; the two requests have the same outcome from the same state.
  With no store fault either request returns, answers 200 with
  \<^verbatim>\<open>{chatId, participants}\<close>, the chat id being that string and the participants the
  sorted pair, and writes the chat record under that id exactly when the store had none.
  A request followed by the swapped request adds at most the chat of that id to the store
  and leaves every chat that was there as it was. When the first request met no store
  fault the chat exists after it, the second request changes no chat, and (unless its
  read fails) answers 200 with the same chat id and participants.
\<close>

theorem create_chat_order_independent:
  "chat_id [a, b] = chat_id [b, a]
   \<and> chat_id [a, b] = (if a \<le> b then a @ ''_'' @ b else b @ ''_'' @ a)
   \<and> post_chats (Some [a, b]) env st = post_chats (Some [b, a]) env st
   \<and> (p_fault env = PostOk \<longrightarrow>
        (\<exists>st1. post_chats (Some [a, b]) env st = Returned st1
           \<and> post_chats (Some [b, a]) env st = Returned st1
           \<and> emitted st st1 =
               (case chats st (chat_id [a, b]) of
                  None \<Rightarrow> [ChatsSet (chat_id [a, b])
                    \<lparr>participants = (if a \<le> b then [a, b] else [b, a]), createdAt = p_now env,
                     lastMessage = None, lastMessageAt = None\<rparr>]
                | Some d \<Rightarrow> []) @
               [HttpResponse 200
                  (JObj [(''chatId'', JStr (if a \<le> b then a @ ''_'' @ b else b @ ''_'' @ a)),
                         (''participants'',
                          JArr (if a \<le> b then [JStr a, JStr b] else [JStr b, JStr a]))])]
           \<and> chats st1 =
               (case chats st (chat_id [a, b]) of
                  None \<Rightarrow> (chats st)(chat_id [a, b] \<mapsto>
                    \<lparr>participants = (if a \<le> b then [a, b] else [b, a]), createdAt = p_now env,
                     lastMessage = None, lastMessageAt = None\<rparr>)
                | Some d \<Rightarrow> chats st)))
   \<and> (\<exists>st1 st2. post_chats (Some [a, b]) env st = Returned st1
        \<and> post_chats (Some [b, a]) env' st1 = Returned st2
        \<and> dom (chats st2) \<subseteq> insert (chat_id [a, b]) (dom (chats st))
        \<and> chats st \<subseteq>\<^sub>m chats st2
        \<and> (p_fault env = PostOk \<longrightarrow>
              chats st1 (chat_id [a, b]) \<noteq> None \<and> chats st2 = chats st1
              \<and> (p_fault env' \<noteq> PostGetThrows \<longrightarrow>
                    emitted st1 st2 =
                      [HttpResponse 200
                         (JObj [(''chatId'', JStr (if a \<le> b then a @ ''_'' @ b else b @ ''_'' @ a)),
                                (''participants'',
                                 JArr (if a \<le> b then [JStr a, JStr b]
                                       else [JStr b, JStr a]))])])))"
proof -
  obtain st1 where s1: "post_chats (Some [a, b]) env st = Returned st1"
    using post_chats_returns by blast
  obtain st2 where s2: "post_chats (Some [b, a]) env' st1 = Returned st2"
    using post_chats_returns by blast
  have s2': "post_chats (Some [a, b]) env' st1 = Returned st2"
    using s2 by (simp only: post_chats_swap [of a b])
  have d1: "dom (chats st1) \<subseteq> insert (chat_id [a, b]) (dom (chats st))"
    using s1 by (rule post_chats_dom)
  have d2: "dom (chats st2) \<subseteq> insert (chat_id [a, b]) (dom (chats st1))"
    using s2' by (rule post_chats_dom)
  have le: "chats st \<subseteq>\<^sub>m chats st2"
    using post_chats_map_le [OF s1] post_chats_map_le [OF s2'] by (rule map_le_trans)
  have idem: "chats st1 (chat_id [a, b]) \<noteq> None \<and> chats st2 = chats st1
      \<and> (p_fault env' \<noteq> PostGetThrows \<longrightarrow>
            emitted st1 st2 = [HttpResponse 200 (chat_response [a, b])])"
    if ok: "p_fault env = PostOk"
  proof -
    have ex: "chats st1 (chat_id [a, b]) \<noteq> None"
      using post_chats_created [OF _ ok s1] by simp
    have same: "chats st2 = chats st1"
      using s2' ex
      by (auto simp: post_chats_def post_chats_body_def prim_defs split: option.splits if_splits)
    have resp: "emitted st1 st2 = [HttpResponse 200 (chat_response [a, b])]"
      if "p_fault env' \<noteq> PostGetThrows"
      using post_chats_existing [of "[a, b]" st1 env'] ex that s2' by simp
    show ?thesis using ex same resp by blast
  qed
  have first: "\<exists>st1. post_chats (Some [a, b]) env st = Returned st1
           \<and> post_chats (Some [b, a]) env st = Returned st1
           \<and> emitted st st1 =
               (case chats st (chat_id [a, b]) of
                  None \<Rightarrow> [ChatsSet (chat_id [a, b])
                    \<lparr>participants = (if a \<le> b then [a, b] else [b, a]), createdAt = p_now env,
                     lastMessage = None, lastMessageAt = None\<rparr>]
                | Some d \<Rightarrow> []) @
               [HttpResponse 200
                  (JObj [(''chatId'', JStr (if a \<le> b then a @ ''_'' @ b else b @ ''_'' @ a)),
                         (''participants'',
                          JArr (if a \<le> b then [JStr a, JStr b] else [JStr b, JStr a]))])]
           \<and> chats st1 =
               (case chats st (chat_id [a, b]) of
                  None \<Rightarrow> (chats st)(chat_id [a, b] \<mapsto>
                    \<lparr>participants = (if a \<le> b then [a, b] else [b, a]), createdAt = p_now env,
                     lastMessage = None, lastMessageAt = None\<rparr>)
                | Some d \<Rightarrow> chats st)"
    if ok: "p_fault env = PostOk"
  proof -
    note e1 = post_chats_ok [OF ok, of a b st]
    have e2: "post_chats (Some [b, a]) env st = post_chats (Some [a, b]) env st"
      by (rule post_chats_swap [symmetric])
    show ?thesis
      unfolding e2 e1 by (simp add: emitted_def chat_id_def)
  qed
  have cid: "chat_id [a, b] = (if a \<le> b then a @ ''_'' @ b else b @ ''_'' @ a)"
    by (simp add: chat_id_def)
  show ?thesis
    using chat_id_swap [of a b] cid post_chats_swap [of a b env st] s1 s2 d1 d2 le idem first
    unfolding chat_response_pair [of a b]
    by blast
qed

theorem create_chat_order_independent_witness:
  "chat_id [''bob'', ''alice''] = ''alice_bob''
   \<and> chat_id [''alice'', ''bob''] = ''alice_bob''
   \<and> emitted init_state
        (state_of (post_chats (Some [''bob'', ''alice'']) \<lparr>p_fault = PostOk, p_now = 5\<rparr> init_state))
      = [ChatsSet ''alice_bob'' \<lparr>participants = [''alice'', ''bob''], createdAt = 5,
                                  lastMessage = None, lastMessageAt = None\<rparr>,
         HttpResponse 200 (JObj [(''chatId'', JStr ''alice_bob''),
                                 (''participants'', JArr [JStr ''alice'', JStr ''bob''])])]
   \<and> emitted
        (state_of (post_chats (Some [''bob'', ''alice'']) \<lparr>p_fault = PostOk, p_now = 5\<rparr> init_state))
        (state_of (post_chats (Some [''alice'', ''bob'']) \<lparr>p_fault = PostOk, p_now = 7\<rparr>
          (state_of (post_chats (Some [''bob'', ''alice'']) \<lparr>p_fault = PostOk, p_now = 5\<rparr>
             init_state))))
      = [HttpResponse 200 (JObj [(''chatId'', JStr ''alice_bob''),
                                 (''participants'', JArr [JStr ''alice'', JStr ''bob''])])]
   \<and> chats (state_of (post_chats (Some [''alice'', ''bob'']) \<lparr>p_fault = PostOk, p_now = 7\<rparr>
        (state_of (post_chats (Some [''bob'', ''alice'']) \<lparr>p_fault = PostOk, p_now = 5\<rparr>
           init_state))))
      = chats (state_of (post_chats (Some [''bob'', ''alice'']) \<lparr>p_fault = PostOk, p_now = 5\<rparr>
           init_state))"
  using create_chat_order_independent [of "''bob''" "''alice''" "\<lparr>p_fault = PostOk, p_now = 5\<rparr>"
      init_state "\<lparr>p_fault = PostOk, p_now = 7\<rparr>"]
  by (simp add: handler_defs prim_defs init_state_def emitted_def)

subsection \<open>Joining\<close>


lemma join_accepted:
  assumes "join_accepts d g st"
  shows "join_handler k (Some d) g st =
     Returned (socket_emit k ''joined''
                 (JObj [(''chatId'', JStr (str (j_chatId d))), (''userId'', JStr (str (j_userId d)))])
              (socket_to_emit k (str (j_chatId d)) ''userOnline''
                 (JObj [(''userId'', JStr (str (j_userId d)))])
              (userSockets_set k \<lparr>userId = str (j_userId d), chatId = str (j_chatId d)\<rparr>
              (activeUsers_set (str (j_userId d)) k
              (socket_join k (str (j_chatId d)) st)))))"
  using assms
  by (auto simp: join_accepts_def join_handler_def join_body_def Let_def split: option.splits)

lemma join_rejected:
  assumes "\<not> join_accepts d g st"
  shows "\<exists>m. join_handler k (Some d) g st =
           Returned (st\<lparr>trace := trace st @ [Emit k ''error'' (JStr m)]\<rparr>)"
  using assms
  by (auto simp: join_accepts_def join_handler_def join_body_def Let_def socket_emit_def
           split: option.splits)



text \<open>
  C5, as the code has it. A join request that carries a payload fails in three ways, each
  reported by one \<^verbatim>\<open>error\<close> event to the joining connection and nothing else: the
  state after it is the state before it with that event appended to the trace, so neither
  map, no room and no store record changes. A missing or empty \<open>userId\<close> or \<open>chatId\<close>
  (the specification's ValidationError) is reported as
  \<^verbatim>\<open>UserId and chatId are required\<close>; a chat absent from the store (NotFoundError) as
  \<^verbatim>\<open>Chat not found\<close>; a user who is not among the chat's participants
  (AuthorizationError) as \<^verbatim>\<open>Not authorized for this chat\<close>. A request with no payload
  at all is reported in the same way, by the message of the handler's \<^verbatim>\<open>catch\<close>,
  \<^verbatim>\<open>Failed to join chat\<close>.
\<close>

theorem join_failures:
  "(falsy (j_userId d) \<or> falsy (j_chatId d) \<longrightarrow>
      step (Join k (Some d) get_throws) st =
        Returned (st\<lparr>trace := trace st @
                    [Emit k ''error'' (JStr ''UserId and chatId are required'')]\<rparr>))
   \<and> (\<not> falsy (j_userId d) \<and> \<not> falsy (j_chatId d) \<and> chats st (str (j_chatId d)) = None \<longrightarrow>
      step (Join k (Some d) False) st =
        Returned (st\<lparr>trace := trace st @ [Emit k ''error'' (JStr ''Chat not found'')]\<rparr>))
   \<and> (\<not> falsy (j_userId d) \<and> \<not> falsy (j_chatId d) \<and> chats st (str (j_chatId d)) = Some cd
        \<and> str (j_userId d) \<notin> set (participants cd) \<longrightarrow>
      step (Join k (Some d) False) st =
        Returned (st\<lparr>trace := trace st @
                    [Emit k ''error'' (JStr ''Not authorized for this chat'')]\<rparr>))
   \<and> step (Join k None get_throws) st =
        Returned (st\<lparr>trace := trace st @ [Emit k ''error'' (JStr ''Failed to join chat'')]\<rparr>)"
  by (simp add: join_handler_def join_body_def Let_def socket_emit_def)

theorem join_failures_witness:
  "step (Join 1 (Some \<lparr>j_userId = None, j_chatId = Some ''a_b''\<rparr>) False) init_state =
     Returned (init_state\<lparr>trace := [Emit 1 ''error'' (JStr ''UserId and chatId are required'')]\<rparr>)
   \<and> step (Join 1 (Some \<lparr>j_userId = Some ''a'', j_chatId = Some ''a_b''\<rparr>) False) init_state =
     Returned (init_state\<lparr>trace := [Emit 1 ''error'' (JStr ''Chat not found'')]\<rparr>)
   \<and> step (Join 1 (Some \<lparr>j_userId = Some ''c'', j_chatId = Some ''a_b''\<rparr>) False)
        (init_state\<lparr>chats := [''a_b'' \<mapsto> \<lparr>participants = [''a'', ''b''], createdAt = 1,
                                           lastMessage = None, lastMessageAt = None\<rparr>]\<rparr>) =
     Returned (init_state\<lparr>chats := [''a_b'' \<mapsto> \<lparr>participants = [''a'', ''b''], createdAt = 1,
                                           lastMessage = None, lastMessageAt = None\<rparr>],
                          trace := [Emit 1 ''error'' (JStr ''Not authorized for this chat'')]\<rparr>)"
  using join_failures [of "\<lparr>j_userId = None, j_chatId = Some ''a_b''\<rparr>" 1 False init_state]
    join_failures [of "\<lparr>j_userId = Some ''a'', j_chatId = Some ''a_b''\<rparr>" 1 False init_state]
    join_failures [of "\<lparr>j_userId = Some ''c'', j_chatId = Some ''a_b''\<rparr>" 1 False
      "init_state\<lparr>chats := [''a_b'' \<mapsto> \<lparr>participants = [''a'', ''b''], createdAt = 1,
                                           lastMessage = None, lastMessageAt = None\<rparr>]\<rparr>"
      "\<lparr>participants = [''a'', ''b''], createdAt = 1, lastMessage = None, lastMessageAt = None\<rparr>"]
  by (simp add: falsy_def str_def init_state_def)

text \<open>
  A join request without payload has no \<open>userId\<close> and no \<open>chatId\<close>, and is not
  reported as the missing fields of a payload are: it is reported as a store fault is.
\<close>

theorem join_failures_counterexample:
  "step (Join 1 None False) init_state =
     Returned (init_state\<lparr>trace := [Emit 1 ''error'' (JStr ''Failed to join chat'')]\<rparr>)
   \<and> step (Join 1 (Some \<lparr>j_userId = None, j_chatId = None\<rparr>) False) init_state =
     Returned (init_state\<lparr>trace := [Emit 1 ''error'' (JStr ''UserId and chatId are required'')]\<rparr>)
   \<and> step (Join 1 (Some \<lparr>j_userId = Some ''a'', j_chatId = Some ''a_b''\<rparr>) True) init_state =
     step (Join 1 None False) init_state"
  by (simp add: join_handler_def join_body_def falsy_def socket_emit_def init_state_def)

subsection \<open>Sending\<close>

lemma dropWhile_all: "(\<forall>x\<in>set (dropWhile P xs). P x) \<longleftrightarrow> (\<forall>x\<in>set xs. P x)"
  by (induction xs) auto

lemma trim_empty_iff: "trim s = [] \<longleftrightarrow> (\<forall>c\<in>set s. js_whitespace c)"
  by (simp add: trim_def dropWhile_all)

text \<open>
  C7. A connection with a registered session sends a message that is missing, empty or
  made of whitespace only. The request is answered by one \<^verbatim>\<open>error\<close> event,
  \<^verbatim>\<open>Message cannot be empty\<close> (the specification's ValidationError), to the sender;
  the state is otherwise unchanged: no message record is added, no chat summary is
  touched and no broadcast is made.
\<close>

theorem send_empty_rejected:
  assumes "userSockets st k = Some s" and "userId s \<noteq> []" and "chatId s \<noteq> []"
    and "\<forall>c\<in>set (str (message d)). js_whitespace c"
  shows "step (SendMessage k (Some d) env) st =
           Returned (st\<lparr>trace := trace st @ [Emit k ''error'' (JStr ''Message cannot be empty'')]\<rparr>)"
  using assms
  by (simp add: send_handler_def send_body_def socket_emit_def trim_empty_iff)

theorem send_empty_rejected_witness:
  "messages (state_of (step (SendMessage 1 (Some \<lparr>message = Some ''   '', timestamp = None\<rparr>)
              \<lparr>s_fault = SendOk, s_newId = ''m1'', s_addTime = 3, s_updateTime = 4\<rparr>)
     (init_state\<lparr>userSockets := [1 \<mapsto> \<lparr>userId = ''a'', chatId = ''a_b''\<rparr>]\<rparr>))) = []
   \<and> emitted (init_state\<lparr>userSockets := [1 \<mapsto> \<lparr>userId = ''a'', chatId = ''a_b''\<rparr>]\<rparr>)
       (state_of (step (SendMessage 1 (Some \<lparr>message = Some ''   '', timestamp = None\<rparr>)
              \<lparr>s_fault = SendOk, s_newId = ''m1'', s_addTime = 3, s_updateTime = 4\<rparr>)
     (init_state\<lparr>userSockets := [1 \<mapsto> \<lparr>userId = ''a'', chatId = ''a_b''\<rparr>]\<rparr>)))
     = [Emit 1 ''error'' (JStr ''Message cannot be empty'')]"
  using send_empty_rejected
      [of "init_state\<lparr>userSockets := [1 \<mapsto> \<lparr>userId = ''a'', chatId = ''a_b''\<rparr>]\<rparr>"
      1 "\<lparr>userId = ''a'', chatId = ''a_b''\<rparr>" "\<lparr>message = Some ''   '', timestamp = None\<rparr>"
      "\<lparr>s_fault = SendOk, s_newId = ''m1'', s_addTime = 3, s_updateTime = 4\<rparr>"]
  by (simp add: str_def js_whitespace_def init_state_def emitted_def)

subsection \<open>Disconnecting\<close>

lemma run_snoc:
  "run (es @ [e]) st = (case run es st of Returned st' \<Rightarrow> step e st' | Threw st' \<Rightarrow> Threw st')"
  by (induction es arbitrary: st) (auto split: outcome.splits)

lemma disconnect_session:
  "userSockets st k = Some s \<Longrightarrow>
     step (Disconnect k) st =
       Returned (socket_to_emit k (chatId s) ''userOffline'' (JObj [(''userId'', JStr (userId s))])
                (userSockets_delete k (activeUsers_delete (userId s) (leave_all k st))))"
  by (simp add: disconnect_handler_def leave_all_def)

lemma disconnect_no_session:
  "userSockets st k = None \<Longrightarrow> disconnect_handler k st = Returned st"
  by (simp add: disconnect_handler_def)






subsection \<open>Sending a message that is not empty\<close>

lemma trim_Nil [simp]: "trim [] = []"
  by (simp add: trim_def)

lemma send_accepted:
  assumes "userSockets st k = Some s" and "userId s \<noteq> []" and "chatId s \<noteq> []"
    and "message d = Some text" and "trim text \<noteq> []"
  shows "send_body k (Some d) env st =
     (if s_fault env = AddThrows then Threw st
      else if s_fault env = ReadBackThrows
           then Threw (messages_add (message_data s text (timestamp d) env) st)
      else (case chats st (chatId s) of
              None \<Rightarrow> Threw (messages_add (message_data s text (timestamp d) env) st)
            | Some cd \<Rightarrow>
                if s_fault env = UpdateThrows
                then Threw (messages_add (message_data s text (timestamp d) env) st)
                else Returned
                  (io_to_emit (chatId s) ''newMessage''
                     (saved_message (message_data s text (timestamp d) env))
                  (chat_doc_update (chatId s) cd (trim text) (s_updateTime env)
                  (messages_add (message_data s text (timestamp d) env) st)))))"
  using assms
  by (auto simp: send_body_def Let_def falsy_def str_def messages_add_def split: option.splits)

text \<open>
  C3. A connection whose session \<open>s\<close> is registered in a state reached by a run sends a
  message whose trimmed text is not empty. The handler returns. With no store fault its
  effects are, in this order: the message record (with the id the store assigned and the
  trimmed text) is added, the summary of the session's chat is updated, and
  \<^verbatim>\<open>newMessage\<close> with the saved record goes to every member of the chat's room, the
  sender among them. When the add fails, the only effect is one \<^verbatim>\<open>error\<close> event to
  the sender. When the read-back or the summary update fails, the record stays added, the
  chats are unchanged, and the only event is the \<^verbatim>\<open>error\<close> to the sender: no
  broadcast is made.
\<close>

theorem send_persists_then_broadcasts:
  assumes "run es init_state = Returned st"
    and "userSockets st k = Some s"
    and "message d = Some text" and "trim text \<noteq> []"
  shows "\<exists>st' cd. step (SendMessage k (Some d) env) st = Returned st'
     \<and> chats st (chatId s) = Some cd
     \<and> k \<in> rooms st (chatId s)
     \<and> m_id (message_data s text (timestamp d) env) = s_newId env
     \<and> m_message (message_data s text (timestamp d) env) = trim text
     \<and> (s_fault env = SendOk \<longrightarrow>
          emitted st st' =
            [MessagesAdd (message_data s text (timestamp d) env),
             ChatsUpdate (chatId s) (trim text) (s_updateTime env),
             Broadcast (chatId s) (rooms st (chatId s)) ''newMessage''
               (saved_message (message_data s text (timestamp d) env))]
          \<and> messages st' = messages st @ [message_data s text (timestamp d) env]
          \<and> chats st' = (chats st)(chatId s \<mapsto>
               cd\<lparr>lastMessage := Some (trim text), lastMessageAt := Some (s_updateTime env)\<rparr>))
     \<and> (s_fault env = AddThrows \<longrightarrow>
          st' = st\<lparr>trace := trace st @ [Emit k ''error'' (JStr ''Failed to send message'')]\<rparr>)
     \<and> (s_fault env = ReadBackThrows \<or> s_fault env = UpdateThrows \<longrightarrow>
          emitted st st' =
            [MessagesAdd (message_data s text (timestamp d) env),
             Emit k ''error'' (JStr ''Failed to send message'')]
          \<and> chats st' = chats st)"
proof -
  have inv: "joined_inv st"
    using assms(1) by (rule joined_inv_reachable)
  have s: "userId s \<noteq> []" "chatId s \<noteq> []" "k \<in> rooms st (chatId s)"
    using inv assms(2) unfolding joined_inv_def by blast+
  obtain cd where cd: "chats st (chatId s) = Some cd"
    using inv assms(2) unfolding joined_inv_def by blast
  have body: "send_body k (Some d) env st = (if s_fault env = AddThrows then Threw st
      else if s_fault env = ReadBackThrows \<or> s_fault env = UpdateThrows
           then Threw (messages_add (message_data s text (timestamp d) env) st)
      else Returned
                  (io_to_emit (chatId s) ''newMessage''
                     (saved_message (message_data s text (timestamp d) env))
                  (chat_doc_update (chatId s) cd (trim text) (s_updateTime env)
                  (messages_add (message_data s text (timestamp d) env) st))))"
    using send_accepted [OF assms(2) s(1) s(2) assms(3) assms(4), of env] cd by simp
  show ?thesis
    using cd s(3)
    by (cases "s_fault env")
       (simp_all add: send_handler_def body prim_defs emitted_def message_data_def)
qed

theorem send_persists_then_broadcasts_witness:
  "emitted
     (state_of (run [PostChats (Some [''b'', ''a'']) \<lparr>p_fault = PostOk, p_now = 1\<rparr>,
        Join 1 (Some \<lparr>j_userId = Some ''a'', j_chatId = Some ''a_b''\<rparr>) False,
        Join 2 (Some \<lparr>j_userId = Some ''b'', j_chatId = Some ''a_b''\<rparr>) False] init_state))
     (state_of (step (SendMessage 1 (Some \<lparr>message = Some '' hi '', timestamp = None\<rparr>)
                   \<lparr>s_fault = SendOk, s_newId = ''m1'', s_addTime = 3, s_updateTime = 4\<rparr>)
        (state_of (run [PostChats (Some [''b'', ''a'']) \<lparr>p_fault = PostOk, p_now = 1\<rparr>,
           Join 1 (Some \<lparr>j_userId = Some ''a'', j_chatId = Some ''a_b''\<rparr>) False,
           Join 2 (Some \<lparr>j_userId = Some ''b'', j_chatId = Some ''a_b''\<rparr>) False] init_state))))
   = [MessagesAdd \<lparr>m_id = ''m1'', m_senderId = ''a'', m_message = ''hi'', m_timestamp = 3,
                    m_chatId = ''a_b''\<rparr>,
      ChatsUpdate ''a_b'' ''hi'' 4,
      Broadcast ''a_b'' {1, 2} ''newMessage''
        (JObj [(''id'', JStr ''m1''), (''senderId'', JStr ''a''), (''message'', JStr ''hi''),
               (''timestamp'', JNum 3), (''chatId'', JStr ''a_b'')])]
   \<and> emitted
     (state_of (run [PostChats (Some [''b'', ''a'']) \<lparr>p_fault = PostOk, p_now = 1\<rparr>,
        Join 1 (Some \<lparr>j_userId = Some ''a'', j_chatId = Some ''a_b''\<rparr>) False,
        Join 2 (Some \<lparr>j_userId = Some ''b'', j_chatId = Some ''a_b''\<rparr>) False] init_state))
     (state_of (step (SendMessage 1 (Some \<lparr>message = Some '' hi '', timestamp = None\<rparr>)
                   \<lparr>s_fault = AddThrows, s_newId = ''m1'', s_addTime = 3, s_updateTime = 4\<rparr>)
        (state_of (run [PostChats (Some [''b'', ''a'']) \<lparr>p_fault = PostOk, p_now = 1\<rparr>,
           Join 1 (Some \<lparr>j_userId = Some ''a'', j_chatId = Some ''a_b''\<rparr>) False,
           Join 2 (Some \<lparr>j_userId = Some ''b'', j_chatId = Some ''a_b''\<rparr>) False] init_state))))
   = [Emit 1 ''error'' (JStr ''Failed to send message'')]
   \<and> emitted
     (state_of (run [PostChats (Some [''b'', ''a'']) \<lparr>p_fault = PostOk, p_now = 1\<rparr>,
        Join 1 (Some \<lparr>j_userId = Some ''a'', j_chatId = Some ''a_b''\<rparr>) False,
        Join 2 (Some \<lparr>j_userId = Some ''b'', j_chatId = Some ''a_b''\<rparr>) False] init_state))
     (state_of (step (SendMessage 1 (Some \<lparr>message = Some '' hi '', timestamp = None\<rparr>)
                   \<lparr>s_fault = UpdateThrows, s_newId = ''m1'', s_addTime = 3, s_updateTime = 4\<rparr>)
        (state_of (run [PostChats (Some [''b'', ''a'']) \<lparr>p_fault = PostOk, p_now = 1\<rparr>,
           Join 1 (Some \<lparr>j_userId = Some ''a'', j_chatId = Some ''a_b''\<rparr>) False,
           Join 2 (Some \<lparr>j_userId = Some ''b'', j_chatId = Some ''a_b''\<rparr>) False] init_state))))
   = [MessagesAdd \<lparr>m_id = ''m1'', m_senderId = ''a'', m_message = ''hi'', m_timestamp = 3,
                    m_chatId = ''a_b''\<rparr>,
      Emit 1 ''error'' (JStr ''Failed to send message'')]"
proof -
  let ?es = "[PostChats (Some [''b'', ''a'']) \<lparr>p_fault = PostOk, p_now = 1\<rparr>,
        Join 1 (Some \<lparr>j_userId = Some ''a'', j_chatId = Some ''a_b''\<rparr>) False,
        Join 2 (Some \<lparr>j_userId = Some ''b'', j_chatId = Some ''a_b''\<rparr>) False]"
  let ?st = "state_of (run ?es init_state)"
  let ?d = "\<lparr>message = Some '' hi '', timestamp = None\<rparr>"
  have r: "run ?es init_state = Returned ?st"
    by (simp add: handler_defs prim_defs init_state_def Let_def)
  have s: "userSockets ?st 1 = Some \<lparr>userId = ''a'', chatId = ''a_b''\<rparr>"
    by (simp add: handler_defs prim_defs init_state_def Let_def)
  have m: "message ?d = Some '' hi ''" by simp
  have t: "trim '' hi '' \<noteq> []" by (simp add: trim_def js_whitespace_def)
  note th = send_persists_then_broadcasts [OF r s m t]
  show ?thesis
    using th [of "\<lparr>s_fault = SendOk, s_newId = ''m1'', s_addTime = 3, s_updateTime = 4\<rparr>"]
      th [of "\<lparr>s_fault = AddThrows, s_newId = ''m1'', s_addTime = 3, s_updateTime = 4\<rparr>"]
      th [of "\<lparr>s_fault = UpdateThrows, s_newId = ''m1'', s_addTime = 3, s_updateTime = 4\<rparr>"]
    by (auto simp add: handler_defs prim_defs init_state_def Let_def emitted_def trim_def
          js_whitespace_def)
qed

subsection \<open>The two maps\<close>

lemma lockstep_init: "lockstep init_state"
  by (simp add: lockstep_def init_state_def)

lemma lockstep_frame:
  "activeUsers st' = activeUsers st \<Longrightarrow> userSockets st' = userSockets st \<Longrightarrow>
     lockstep st' = lockstep st"
  by (simp add: lockstep_def)

lemma post_chats_registry:
  "post_chats ps env st = Returned st' \<Longrightarrow>
     activeUsers st' = activeUsers st \<and> userSockets st' = userSockets st"
  by (auto simp: post_chats_def post_chats_body_def prim_defs split: option.splits if_splits)

lemma send_registry:
  "send_handler k data env st = Returned st' \<Longrightarrow>
     activeUsers st' = activeUsers st \<and> userSockets st' = userSockets st"
  by (auto simp: send_handler_def send_body_def prim_defs Let_def split: option.splits if_splits)

lemma typing_registry:
  "typing_handler k data st = Returned st' \<Longrightarrow>
     activeUsers st' = activeUsers st \<and> userSockets st' = userSockets st"
  by (auto simp: typing_handler_def prim_defs split: option.splits if_splits)

lemma join_registry:
  "join_handler k data g st = Returned st' \<Longrightarrow>
     (case data of
        None \<Rightarrow> activeUsers st' = activeUsers st \<and> userSockets st' = userSockets st
      | Some d \<Rightarrow>
          if join_accepts d g st then
            activeUsers st' = (activeUsers st)(str (j_userId d) \<mapsto> k) \<and>
            userSockets st' =
              (userSockets st)(k \<mapsto> \<lparr>userId = str (j_userId d), chatId = str (j_chatId d)\<rparr>)
          else activeUsers st' = activeUsers st \<and> userSockets st' = userSockets st)"
  by (auto simp: join_handler_def join_body_def join_accepts_def prim_defs Let_def
           split: option.splits if_splits)

lemma disconnect_registry:
  "step (Disconnect k) st = Returned st' \<Longrightarrow>
     (case userSockets st k of
        None \<Rightarrow> activeUsers st' = activeUsers st \<and> userSockets st' = userSockets st
      | Some s \<Rightarrow> activeUsers st' = (activeUsers st)(userId s := None) \<and>
                   userSockets st' = (userSockets st)(k := None))"
  by (auto simp: disconnect_handler_def prim_defs split: option.splits)

lemma lockstepD1:
  "lockstep st \<Longrightarrow> activeUsers st u = Some k \<Longrightarrow>
     \<exists>c. userSockets st k = Some \<lparr>userId = u, chatId = c\<rparr>"
  by (simp add: lockstep_def)

lemma lockstepD2:
  "lockstep st \<Longrightarrow> userSockets st k = Some s \<Longrightarrow> activeUsers st (userId s) = Some k"
proof -
  assume l: "lockstep st" and s: "userSockets st k = Some s"
  have "s = \<lparr>userId = userId s, chatId = chatId s\<rparr>" by simp
  then have "userSockets st k = Some \<lparr>userId = userId s, chatId = chatId s\<rparr>"
    using s by simp
  then have "\<exists>c. userSockets st k = Some \<lparr>userId = userId s, chatId = c\<rparr>"
    by (rule exI)
  then show ?thesis using l by (simp add: lockstep_def)
qed

lemma lockstepI:
  assumes "\<And>u k. activeUsers st u = Some k \<Longrightarrow> \<exists>c. userSockets st k = Some \<lparr>userId = u, chatId = c\<rparr>"
    and "\<And>k s. userSockets st k = Some s \<Longrightarrow> activeUsers st (userId s) = Some k"
  shows "lockstep st"
  unfolding lockstep_def
proof (intro allI iffI)
  fix u k assume "activeUsers st u = Some k"
  then show "\<exists>c. userSockets st k = Some \<lparr>userId = u, chatId = c\<rparr>" by (rule assms(1))
next
  fix u k assume "\<exists>c. userSockets st k = Some \<lparr>userId = u, chatId = c\<rparr>"
  then obtain c where "userSockets st k = Some \<lparr>userId = u, chatId = c\<rparr>" ..
  from assms(2) [OF this] show "activeUsers st u = Some k" by simp
qed

lemma lockstep_register:
  assumes l: "lockstep st"
    and a: "activeUsers st u = None \<or> activeUsers st u = Some k"
    and b: "case userSockets st k of None \<Rightarrow> True | Some s \<Rightarrow> userId s = u"
    and A: "activeUsers st' = (activeUsers st)(u \<mapsto> k)"
    and S: "userSockets st' = (userSockets st)(k \<mapsto> \<lparr>userId = u, chatId = c\<rparr>)"
  shows "lockstep st'"
proof (rule lockstepI)
  fix v j assume v: "activeUsers st' v = Some j"
  show "\<exists>c. userSockets st' j = Some \<lparr>userId = v, chatId = c\<rparr>"
  proof (cases "v = u")
    case True
    then show ?thesis using v A S by simp
  next
    case False
    then have av: "activeUsers st v = Some j" using v A by simp
    from lockstepD1 [OF l av] obtain c' where c': "userSockets st j = Some \<lparr>userId = v, chatId = c'\<rparr>" ..
    have "j \<noteq> k" using c' b False by auto
    then show ?thesis using c' S by simp
  qed
next
  fix j s assume s: "userSockets st' j = Some s"
  show "activeUsers st' (userId s) = Some j"
  proof (cases "j = k")
    case True
    then show ?thesis using s A S by auto
  next
    case False
    then have sj: "userSockets st j = Some s" using s S by simp
    have aj: "activeUsers st (userId s) = Some j" using lockstepD2 [OF l sj] .
    have "userId s \<noteq> u" using aj a False by auto
    then show ?thesis using aj A by simp
  qed
qed

lemma lockstep_unregister:
  assumes l: "lockstep st" and s: "userSockets st k = Some s"
    and A: "activeUsers st' = (activeUsers st)(userId s := None)"
    and S: "userSockets st' = (userSockets st)(k := None)"
  shows "lockstep st'"
proof (rule lockstepI)
  fix v j assume v: "activeUsers st' v = Some j"
  then have vu: "v \<noteq> userId s" and av: "activeUsers st v = Some j"
    using A by (auto split: if_splits)
  from lockstepD1 [OF l av] obtain c' where c': "userSockets st j = Some \<lparr>userId = v, chatId = c'\<rparr>" ..
  have "j \<noteq> k" using c' s vu by auto
  then show "\<exists>c. userSockets st' j = Some \<lparr>userId = v, chatId = c\<rparr>" using c' S by simp
next
  fix j t assume t: "userSockets st' j = Some t"
  then have jk: "j \<noteq> k" and sj: "userSockets st j = Some t"
    using S by (auto split: if_splits)
  have aj: "activeUsers st (userId t) = Some j" using lockstepD2 [OF l sj] .
  have ak: "activeUsers st (userId s) = Some k" using lockstepD2 [OF l s] .
  have "userId t \<noteq> userId s" using aj ak jk by auto
  then show "activeUsers st' (userId t) = Some j" using aj A by simp
qed

lemma lockstep_same:
  "lockstep st \<Longrightarrow> activeUsers st' = activeUsers st \<and> userSockets st' = userSockets st \<Longrightarrow>
     lockstep st'"
  by (simp add: lockstep_def)

lemma lockstep_step:
  assumes "lockstep st" and "\<not> takeover e st" and "step e st = Returned st'"
  shows "lockstep st'"
proof (cases e)
  case (PostChats ps env)
  then have "post_chats ps env st = Returned st'" using assms(3) by simp
  from lockstep_same [OF assms(1) post_chats_registry [OF this]] show ?thesis .
next
  case (Join k data g)
  then have j: "join_handler k data g st = Returned st'" using assms(3) by simp
  note reg = join_registry [OF j]
  show ?thesis
  proof (cases data)
    case None
    then have "activeUsers st' = activeUsers st \<and> userSockets st' = userSockets st"
      using reg by simp
    from lockstep_same [OF assms(1) this] show ?thesis .
  next
    case (Some d)
    show ?thesis
    proof (cases "join_accepts d g st")
      case True
      have r: "activeUsers st' = (activeUsers st)(str (j_userId d) \<mapsto> k)"
          "userSockets st' =
              (userSockets st)(k \<mapsto> \<lparr>userId = str (j_userId d), chatId = str (j_chatId d)\<rparr>)"
        using reg Some True by simp_all
      have nt: "\<not> ((case activeUsers st (str (j_userId d)) of None \<Rightarrow> False | Some k' \<Rightarrow> k' \<noteq> k) \<or>
         (case userSockets st k of None \<Rightarrow> False | Some s \<Rightarrow> userId s \<noteq> str (j_userId d)))"
        using assms(2) True unfolding Join Some by simp
      have a: "activeUsers st (str (j_userId d)) = None \<or> activeUsers st (str (j_userId d)) = Some k"
        using nt by (cases "activeUsers st (str (j_userId d))") simp_all
      have b: "case userSockets st k of None \<Rightarrow> True | Some s \<Rightarrow> userId s = str (j_userId d)"
        using nt by (cases "userSockets st k") simp_all
      show ?thesis using lockstep_register [OF assms(1) a b r] .
    next
      case False
      then have "activeUsers st' = activeUsers st \<and> userSockets st' = userSockets st"
        using reg Some by simp
      from lockstep_same [OF assms(1) this] show ?thesis .
    qed
  qed
next
  case (SendMessage k data env)
  then have "send_handler k data env st = Returned st'" using assms(3) by simp
  from lockstep_same [OF assms(1) send_registry [OF this]] show ?thesis .
next
  case (Typing k data)
  then have "typing_handler k data st = Returned st'" using assms(3) by simp
  from lockstep_same [OF assms(1) typing_registry [OF this]] show ?thesis .
next
  case (Disconnect k)
  then have d: "step (Disconnect k) st = Returned st'" using assms(3) by simp
  note reg = disconnect_registry [OF d]
  show ?thesis
  proof (cases "userSockets st k")
    case None
    then have "activeUsers st' = activeUsers st \<and> userSockets st' = userSockets st"
      using reg by simp
    from lockstep_same [OF assms(1) this] show ?thesis .
  next
    case (Some s)
    then have r: "activeUsers st' = (activeUsers st)(userId s := None)"
      "userSockets st' = (userSockets st)(k := None)"
      using reg by simp_all
    show ?thesis using lockstep_unregister [OF assms(1) Some r] .
  qed
qed

lemma lockstep_run:
  "lockstep st \<Longrightarrow> no_takeover es st \<Longrightarrow> run es st = Returned st' \<Longrightarrow> lockstep st'"
proof (induction es arbitrary: st)
  case Nil
  then show ?case by simp
next
  case (Cons e es)
  from Cons.prems(3) obtain st1 where s1: "step e st = Returned st1" and r: "run es st1 = Returned st'"
    by (auto split: outcome.splits)
  have "lockstep st1" using lockstep_step [OF Cons.prems(1) _ s1] Cons.prems(2) by simp
  moreover have "no_takeover es st1" using Cons.prems(2) s1 by simp
  ultimately show ?case using Cons.IH r by blast
qed


lemma registry_change:
  assumes "step e st = Returned st'"
  shows "(activeUsers st' = activeUsers st \<and> userSockets st' = userSockets st)
      \<or> (\<exists>u k c. activeUsers st' = (activeUsers st)(u \<mapsto> k)
            \<and> userSockets st' = (userSockets st)(k \<mapsto> \<lparr>userId = u, chatId = c\<rparr>))
      \<or> (\<exists>k s. userSockets st k = Some s
            \<and> activeUsers st' = (activeUsers st)(userId s := None)
            \<and> userSockets st' = (userSockets st)(k := None))"
proof (cases e)
  case (PostChats ps env)
  then show ?thesis using assms post_chats_registry by simp
next
  case (Join k data g)
  then have j: "join_handler k data g st = Returned st'" using assms by simp
  show ?thesis
  proof (cases data)
    case None
    then show ?thesis using join_registry [OF j] by simp
  next
    case (Some d)
    show ?thesis
    proof (cases "join_accepts d g st")
      case True
      then have "activeUsers st' = (activeUsers st)(str (j_userId d) \<mapsto> k) \<and>
            userSockets st' =
              (userSockets st)(k \<mapsto> \<lparr>userId = str (j_userId d), chatId = str (j_chatId d)\<rparr>)"
        using join_registry [OF j] Some by simp
      then show ?thesis by blast
    next
      case False
      then show ?thesis using join_registry [OF j] Some by simp
    qed
  qed
next
  case (SendMessage k data env)
  then show ?thesis using assms send_registry by simp
next
  case (Typing k data)
  then show ?thesis using assms typing_registry by simp
next
  case (Disconnect k)
  then have d: "step (Disconnect k) st = Returned st'" using assms by simp
  show ?thesis
  proof (cases "userSockets st k")
    case None
    then show ?thesis using disconnect_registry [OF d] by simp
  next
    case (Some s)
    then have "userSockets st k = Some s \<and> activeUsers st' = (activeUsers st)(userId s := None)
        \<and> userSockets st' = (userSockets st)(k := None)"
      using disconnect_registry [OF d] by simp
    then show ?thesis by blast
  qed
qed

lemma post_chats_keeps_registry:
  "activeUsers (state_of (post_chats ps env st)) = activeUsers st
   \<and> userSockets (state_of (post_chats ps env st)) = userSockets st"
  by (auto simp: post_chats_def post_chats_body_def prim_defs split: option.splits)

lemma send_keeps_registry:
  "activeUsers (state_of (send_handler k data env st)) = activeUsers st
   \<and> userSockets (state_of (send_handler k data env st)) = userSockets st"
  by (auto simp: send_handler_def send_body_def prim_defs Let_def split: option.splits)

lemma typing_keeps_registry:
  "activeUsers (state_of (typing_handler k data st)) = activeUsers st
   \<and> userSockets (state_of (typing_handler k data st)) = userSockets st"
  by (auto simp: typing_handler_def prim_defs split: option.splits)

lemma rejected_join_keeps_registry:
  assumes "\<not> (case data of None \<Rightarrow> False | Some d \<Rightarrow> join_accepts d g st)"
  shows "activeUsers (state_of (join_handler k data g st)) = activeUsers st
   \<and> userSockets (state_of (join_handler k data g st)) = userSockets st"
  using assms
  by (auto simp: join_handler_def join_body_def join_accepts_def prim_defs Let_def
           split: option.splits)

lemma accepted_join_registers:
  assumes "join_accepts d g st"
  shows "\<exists>st'. step (Join k (Some d) g) st = Returned st'
     \<and> activeUsers st' = (activeUsers st)(str (j_userId d) \<mapsto> k)
     \<and> userSockets st' =
          (userSockets st)(k \<mapsto> \<lparr>userId = str (j_userId d), chatId = str (j_chatId d)\<rparr>)"
  by (simp add: join_accepted [OF assms] prim_defs)

lemma disconnect_unregisters_pair:
  assumes "userSockets st k = Some s"
  shows "\<exists>st'. step (Disconnect k) st = Returned st'
     \<and> activeUsers st' = (activeUsers st)(userId s := None)
     \<and> userSockets st' = (userSockets st)(k := None)"
  unfolding disconnect_session [OF assms] by (simp add: prim_defs)

lemma idle_disconnect_keeps_registry:
  assumes "userSockets st k = None"
  shows "activeUsers (state_of (step (Disconnect k) st)) = activeUsers st
   \<and> userSockets (state_of (step (Disconnect k) st)) = userSockets st"
  using assms by (simp add: disconnect_handler_def leave_all_def)

text \<open>
  C1, as the code has it. In a run in which no accepted join takes over (its user is
  not registered on another connection, its connection not under another user), every
  state reached has the two maps in lockstep. Whatever the state: an accepted join
  returns and writes the entry of its user and the entry of its connection; a join that
  is not accepted changes neither map; a disconnect of a connection with a session
  returns and deletes the entry of the session's user and the entry of the connection; a
  disconnect without session, a chat creation, a send and a typing event change neither
  map. So one step leaves both maps as they are, or writes the two entries together, or
  deletes the two entries together.
\<close>

theorem registry_lockstep_without_takeover:
  "(no_takeover es init_state \<and> run es init_state = Returned st \<longrightarrow> lockstep st)
   \<and> (join_accepts d g st0 \<longrightarrow>
        (\<exists>st1. step (Join k (Some d) g) st0 = Returned st1
           \<and> activeUsers st1 = (activeUsers st0)(str (j_userId d) \<mapsto> k)
           \<and> userSockets st1 =
                (userSockets st0)(k \<mapsto> \<lparr>userId = str (j_userId d), chatId = str (j_chatId d)\<rparr>)))
   \<and> (\<not> (case jdata of None \<Rightarrow> False | Some d' \<Rightarrow> join_accepts d' g st0) \<longrightarrow>
        activeUsers (state_of (step (Join k jdata g) st0)) = activeUsers st0
        \<and> userSockets (state_of (step (Join k jdata g) st0)) = userSockets st0)
   \<and> (userSockets st0 k = Some s \<longrightarrow>
        (\<exists>st1. step (Disconnect k) st0 = Returned st1
           \<and> activeUsers st1 = (activeUsers st0)(userId s := None)
           \<and> userSockets st1 = (userSockets st0)(k := None)))
   \<and> (userSockets st0 k = None \<longrightarrow>
        activeUsers (state_of (step (Disconnect k) st0)) = activeUsers st0
        \<and> userSockets (state_of (step (Disconnect k) st0)) = userSockets st0)
   \<and> activeUsers (state_of (step (PostChats ps penv) st0)) = activeUsers st0
   \<and> userSockets (state_of (step (PostChats ps penv) st0)) = userSockets st0
   \<and> activeUsers (state_of (step (SendMessage k sdata senv) st0)) = activeUsers st0
   \<and> userSockets (state_of (step (SendMessage k sdata senv) st0)) = userSockets st0
   \<and> activeUsers (state_of (step (Typing k tdata) st0)) = activeUsers st0
   \<and> userSockets (state_of (step (Typing k tdata) st0)) = userSockets st0
   \<and> (step e st0 = Returned st1 \<longrightarrow>
        (activeUsers st1 = activeUsers st0 \<and> userSockets st1 = userSockets st0)
      \<or> (\<exists>u k c. activeUsers st1 = (activeUsers st0)(u \<mapsto> k)
            \<and> userSockets st1 = (userSockets st0)(k \<mapsto> \<lparr>userId = u, chatId = c\<rparr>))
      \<or> (\<exists>k s. userSockets st0 k = Some s
            \<and> activeUsers st1 = (activeUsers st0)(userId s := None)
            \<and> userSockets st1 = (userSockets st0)(k := None)))"
proof -
  have run: "no_takeover es init_state \<and> run es init_state = Returned st \<longrightarrow> lockstep st"
    using lockstep_run [OF lockstep_init, of es st] by blast
  have join_ok: "join_accepts d g st0 \<longrightarrow>
        (\<exists>st1. step (Join k (Some d) g) st0 = Returned st1
           \<and> activeUsers st1 = (activeUsers st0)(str (j_userId d) \<mapsto> k)
           \<and> userSockets st1 =
                (userSockets st0)(k \<mapsto> \<lparr>userId = str (j_userId d), chatId = str (j_chatId d)\<rparr>))"
    using accepted_join_registers by blast
  have join_no: "\<not> (case jdata of None \<Rightarrow> False | Some d' \<Rightarrow> join_accepts d' g st0) \<longrightarrow>
        activeUsers (state_of (step (Join k jdata g) st0)) = activeUsers st0
        \<and> userSockets (state_of (step (Join k jdata g) st0)) = userSockets st0"
    using rejected_join_keeps_registry [where data = jdata and g = g and st = st0 and k = k]
    by simp
  have disc: "userSockets st0 k = Some s \<longrightarrow>
        (\<exists>st1. step (Disconnect k) st0 = Returned st1
           \<and> activeUsers st1 = (activeUsers st0)(userId s := None)
           \<and> userSockets st1 = (userSockets st0)(k := None))"
    using disconnect_unregisters_pair by blast
  have idle: "userSockets st0 k = None \<longrightarrow>
        activeUsers (state_of (step (Disconnect k) st0)) = activeUsers st0
        \<and> userSockets (state_of (step (Disconnect k) st0)) = userSockets st0"
    using idle_disconnect_keeps_registry by blast
  have others: "activeUsers (state_of (step (PostChats ps penv) st0)) = activeUsers st0"
    "userSockets (state_of (step (PostChats ps penv) st0)) = userSockets st0"
    "activeUsers (state_of (step (SendMessage k sdata senv) st0)) = activeUsers st0"
    "userSockets (state_of (step (SendMessage k sdata senv) st0)) = userSockets st0"
    "activeUsers (state_of (step (Typing k tdata) st0)) = activeUsers st0"
    "userSockets (state_of (step (Typing k tdata) st0)) = userSockets st0"
    using post_chats_keeps_registry [of ps penv st0] send_keeps_registry [of k sdata senv st0]
      typing_keeps_registry [of k tdata st0]
    by simp_all
  note tri = registry_change [of e st0 st1]
  show ?thesis
    by (intro conjI run join_ok join_no disc idle others impI tri)
qed

theorem registry_lockstep_without_takeover_witness:
  "no_takeover [PostChats (Some [''b'', ''a'']) \<lparr>p_fault = PostOk, p_now = 1\<rparr>,
      Join 1 (Some \<lparr>j_userId = Some ''a'', j_chatId = Some ''a_b''\<rparr>) False,
      Join 2 (Some \<lparr>j_userId = Some ''b'', j_chatId = Some ''a_b''\<rparr>) False,
      Disconnect 1] init_state
   \<and> lockstep (state_of (run [PostChats (Some [''b'', ''a'']) \<lparr>p_fault = PostOk, p_now = 1\<rparr>,
      Join 1 (Some \<lparr>j_userId = Some ''a'', j_chatId = Some ''a_b''\<rparr>) False,
      Join 2 (Some \<lparr>j_userId = Some ''b'', j_chatId = Some ''a_b''\<rparr>) False,
      Disconnect 1] init_state))
   \<and> activeUsers (state_of (run [PostChats (Some [''b'', ''a'']) \<lparr>p_fault = PostOk, p_now = 1\<rparr>,
      Join 1 (Some \<lparr>j_userId = Some ''a'', j_chatId = Some ''a_b''\<rparr>) False,
      Join 2 (Some \<lparr>j_userId = Some ''b'', j_chatId = Some ''a_b''\<rparr>) False,
      Disconnect 1] init_state)) ''b'' = Some 2
   \<and> join_accepts \<lparr>j_userId = Some ''b'', j_chatId = Some ''a_b''\<rparr> False
        (state_of (run [PostChats (Some [''b'', ''a'']) \<lparr>p_fault = PostOk, p_now = 1\<rparr>,
           Join 1 (Some \<lparr>j_userId = Some ''a'', j_chatId = Some ''a_b''\<rparr>) False] init_state))
   \<and> activeUsers (state_of (step (Join 2 (Some \<lparr>j_userId = Some ''b'', j_chatId = Some ''a_b''\<rparr>) False)
        (state_of (run [PostChats (Some [''b'', ''a'']) \<lparr>p_fault = PostOk, p_now = 1\<rparr>,
           Join 1 (Some \<lparr>j_userId = Some ''a'', j_chatId = Some ''a_b''\<rparr>) False] init_state))))
        ''b'' = Some 2
   \<and> userSockets (state_of (step (Join 2 (Some \<lparr>j_userId = Some ''b'', j_chatId = Some ''a_b''\<rparr>) False)
        (state_of (run [PostChats (Some [''b'', ''a'']) \<lparr>p_fault = PostOk, p_now = 1\<rparr>,
           Join 1 (Some \<lparr>j_userId = Some ''a'', j_chatId = Some ''a_b''\<rparr>) False] init_state))))
        2 = Some \<lparr>userId = ''b'', chatId = ''a_b''\<rparr>
   \<and> userSockets (state_of (step (Join 2 None False)
        (state_of (run [PostChats (Some [''b'', ''a'']) \<lparr>p_fault = PostOk, p_now = 1\<rparr>,
           Join 1 (Some \<lparr>j_userId = Some ''a'', j_chatId = Some ''a_b''\<rparr>) False] init_state))))
        2 = None
   \<and> userSockets
        (state_of (run [PostChats (Some [''b'', ''a'']) \<lparr>p_fault = PostOk, p_now = 1\<rparr>,
           Join 1 (Some \<lparr>j_userId = Some ''a'', j_chatId = Some ''a_b''\<rparr>) False] init_state))
        1 = Some \<lparr>userId = ''a'', chatId = ''a_b''\<rparr>
   \<and> activeUsers (state_of (step (Disconnect 1)
        (state_of (run [PostChats (Some [''b'', ''a'']) \<lparr>p_fault = PostOk, p_now = 1\<rparr>,
           Join 1 (Some \<lparr>j_userId = Some ''a'', j_chatId = Some ''a_b''\<rparr>) False] init_state))))
        ''a'' = None
   \<and> userSockets (state_of (step (Disconnect 1)
        (state_of (run [PostChats (Some [''b'', ''a'']) \<lparr>p_fault = PostOk, p_now = 1\<rparr>,
           Join 1 (Some \<lparr>j_userId = Some ''a'', j_chatId = Some ''a_b''\<rparr>) False] init_state))))
        1 = None
   \<and> activeUsers (state_of (step (Disconnect 2)
        (state_of (run [PostChats (Some [''b'', ''a'']) \<lparr>p_fault = PostOk, p_now = 1\<rparr>,
           Join 1 (Some \<lparr>j_userId = Some ''a'', j_chatId = Some ''a_b''\<rparr>) False] init_state))))
        ''a'' = Some 1"
proof -
  let ?es = "[PostChats (Some [''b'', ''a'']) \<lparr>p_fault = PostOk, p_now = 1\<rparr>,
      Join 1 (Some \<lparr>j_userId = Some ''a'', j_chatId = Some ''a_b''\<rparr>) False,
      Join 2 (Some \<lparr>j_userId = Some ''b'', j_chatId = Some ''a_b''\<rparr>) False,
      Disconnect 1]"
  let ?st = "state_of (run ?es init_state)"
  let ?base = "state_of (run [PostChats (Some [''b'', ''a'']) \<lparr>p_fault = PostOk, p_now = 1\<rparr>,
      Join 1 (Some \<lparr>j_userId = Some ''a'', j_chatId = Some ''a_b''\<rparr>) False] init_state)"
  let ?d = "\<lparr>j_userId = Some ''b'', j_chatId = Some ''a_b''\<rparr>"
  have nt: "no_takeover ?es init_state"
    by (simp add: join_accepts_def handler_defs prim_defs init_state_def Let_def)
  have r: "run ?es init_state = Returned ?st"
    by (simp add: handler_defs prim_defs init_state_def Let_def)
  have a: "activeUsers ?st ''b'' = Some 2"
    by (simp add: handler_defs prim_defs init_state_def Let_def)
  have acc: "join_accepts ?d False ?base"
    by (simp add: join_accepts_def handler_defs prim_defs init_state_def Let_def)
  have s1: "userSockets ?base 1 = Some \<lparr>userId = ''a'', chatId = ''a_b''\<rparr>"
    and s2: "userSockets ?base 2 = None" and a1: "activeUsers ?base ''a'' = Some 1"
    by (simp_all add: handler_defs prim_defs init_state_def Let_def)
  note t2 = registry_lockstep_without_takeover
    [where es = ?es and st = ?st and d = ?d and g = False and ?st0.0 = ?base and k = 2
       and jdata = None]
  note t1 = registry_lockstep_without_takeover
    [where ?st0.0 = ?base and k = 1 and s = "\<lparr>userId = ''a'', chatId = ''a_b''\<rparr>"]
  note L = t2 [THEN conjunct1]
  note J = t2 [THEN conjunct2, THEN conjunct1]
  note JN = t2 [THEN conjunct2, THEN conjunct2, THEN conjunct1]
  note D = t1 [THEN conjunct2, THEN conjunct2, THEN conjunct2, THEN conjunct1]
  note DN = t2 [THEN conjunct2, THEN conjunct2, THEN conjunct2, THEN conjunct2, THEN conjunct1]
  have l: "lockstep ?st" using L nt r by blast
  from J acc obtain st1 where j1: "step (Join 2 (Some ?d) False) ?base = Returned st1"
    and j2: "activeUsers st1 = (activeUsers ?base)(str (j_userId ?d) \<mapsto> 2)"
    and j3: "userSockets st1 =
      (userSockets ?base)(2 \<mapsto> \<lparr>userId = str (j_userId ?d), chatId = str (j_chatId ?d)\<rparr>)"
    by blast
  have j: "activeUsers (state_of (step (Join 2 (Some ?d) False) ?base)) ''b'' = Some 2"
      "userSockets (state_of (step (Join 2 (Some ?d) False) ?base)) 2
         = Some \<lparr>userId = ''b'', chatId = ''a_b''\<rparr>"
    unfolding j1 state_of.simps j2 j3 by (simp_all add: str_def)
  have "userSockets (state_of (step (Join 2 None False) ?base)) = userSockets ?base"
    using JN by simp
  then have jn: "userSockets (state_of (step (Join 2 None False) ?base)) 2 = None"
    using s2 by (simp only:)
  from D s1 obtain st2 where e1: "step (Disconnect 1) ?base = Returned st2"
    and e2: "activeUsers st2 = (activeUsers ?base)(userId \<lparr>userId = ''a'', chatId = ''a_b''\<rparr> := None)"
    and e3: "userSockets st2 = (userSockets ?base)(1 := None)"
    by blast
  have d1: "activeUsers (state_of (step (Disconnect 1) ?base)) ''a'' = None"
      "userSockets (state_of (step (Disconnect 1) ?base)) 1 = None"
    unfolding e1 state_of.simps e2 e3 by simp_all
  have "activeUsers (state_of (step (Disconnect 2) ?base)) = activeUsers ?base"
    using DN s2 by blast
  then have d2: "activeUsers (state_of (step (Disconnect 2) ?base)) ''a'' = Some 1"
    using a1 by (simp only:)
  show ?thesis using nt l a acc j jn s1 d1 d2 by blast
qed

text \<open>
  Lockstep fails when a join takes over. A connection that joins as \<open>a\<close> and again as
  \<open>b\<close>, then disconnects, leaves \<open>a\<close> in the first map pointing to a connection that
  is no key of the second. A user who joins from connection 1 and then from connection 2
  loses the entry of the first map when connection 1 disconnects, while connection 2
  keeps its session.
\<close>

theorem registry_lockstep_counterexample:
  "\<not> threw (run [PostChats (Some [''b'', ''a'']) \<lparr>p_fault = PostOk, p_now = 1\<rparr>,
      Join 1 (Some \<lparr>j_userId = Some ''a'', j_chatId = Some ''a_b''\<rparr>) False,
      Join 1 (Some \<lparr>j_userId = Some ''b'', j_chatId = Some ''a_b''\<rparr>) False,
      Disconnect 1] init_state)
   \<and> activeUsers (state_of (run [PostChats (Some [''b'', ''a'']) \<lparr>p_fault = PostOk, p_now = 1\<rparr>,
      Join 1 (Some \<lparr>j_userId = Some ''a'', j_chatId = Some ''a_b''\<rparr>) False,
      Join 1 (Some \<lparr>j_userId = Some ''b'', j_chatId = Some ''a_b''\<rparr>) False,
      Disconnect 1] init_state)) ''a'' = Some 1
   \<and> userSockets (state_of (run [PostChats (Some [''b'', ''a'']) \<lparr>p_fault = PostOk, p_now = 1\<rparr>,
      Join 1 (Some \<lparr>j_userId = Some ''a'', j_chatId = Some ''a_b''\<rparr>) False,
      Join 1 (Some \<lparr>j_userId = Some ''b'', j_chatId = Some ''a_b''\<rparr>) False,
      Disconnect 1] init_state)) 1 = None
   \<and> \<not> lockstep (state_of (run [PostChats (Some [''b'', ''a'']) \<lparr>p_fault = PostOk, p_now = 1\<rparr>,
      Join 1 (Some \<lparr>j_userId = Some ''a'', j_chatId = Some ''a_b''\<rparr>) False,
      Join 1 (Some \<lparr>j_userId = Some ''b'', j_chatId = Some ''a_b''\<rparr>) False,
      Disconnect 1] init_state))
   \<and> \<not> threw (run [PostChats (Some [''b'', ''a'']) \<lparr>p_fault = PostOk, p_now = 1\<rparr>,
      Join 1 (Some \<lparr>j_userId = Some ''a'', j_chatId = Some ''a_b''\<rparr>) False,
      Join 2 (Some \<lparr>j_userId = Some ''a'', j_chatId = Some ''a_b''\<rparr>) False,
      Disconnect 1] init_state)
   \<and> activeUsers (state_of (run [PostChats (Some [''b'', ''a'']) \<lparr>p_fault = PostOk, p_now = 1\<rparr>,
      Join 1 (Some \<lparr>j_userId = Some ''a'', j_chatId = Some ''a_b''\<rparr>) False,
      Join 2 (Some \<lparr>j_userId = Some ''a'', j_chatId = Some ''a_b''\<rparr>) False,
      Disconnect 1] init_state)) ''a'' = None
   \<and> userSockets (state_of (run [PostChats (Some [''b'', ''a'']) \<lparr>p_fault = PostOk, p_now = 1\<rparr>,
      Join 1 (Some \<lparr>j_userId = Some ''a'', j_chatId = Some ''a_b''\<rparr>) False,
      Join 2 (Some \<lparr>j_userId = Some ''a'', j_chatId = Some ''a_b''\<rparr>) False,
      Disconnect 1] init_state)) 2 = Some \<lparr>userId = ''a'', chatId = ''a_b''\<rparr>
   \<and> \<not> lockstep (state_of (run [PostChats (Some [''b'', ''a'']) \<lparr>p_fault = PostOk, p_now = 1\<rparr>,
      Join 1 (Some \<lparr>j_userId = Some ''a'', j_chatId = Some ''a_b''\<rparr>) False,
      Join 2 (Some \<lparr>j_userId = Some ''a'', j_chatId = Some ''a_b''\<rparr>) False,
      Disconnect 1] init_state))"
proof -
  let ?st1 = "state_of (run [PostChats (Some [''b'', ''a'']) \<lparr>p_fault = PostOk, p_now = 1\<rparr>,
      Join 1 (Some \<lparr>j_userId = Some ''a'', j_chatId = Some ''a_b''\<rparr>) False,
      Join 1 (Some \<lparr>j_userId = Some ''b'', j_chatId = Some ''a_b''\<rparr>) False,
      Disconnect 1] init_state)"
  let ?st2 = "state_of (run [PostChats (Some [''b'', ''a'']) \<lparr>p_fault = PostOk, p_now = 1\<rparr>,
      Join 1 (Some \<lparr>j_userId = Some ''a'', j_chatId = Some ''a_b''\<rparr>) False,
      Join 2 (Some \<lparr>j_userId = Some ''a'', j_chatId = Some ''a_b''\<rparr>) False,
      Disconnect 1] init_state)"
  have a1: "activeUsers ?st1 ''a'' = Some 1" and s1: "userSockets ?st1 1 = None"
    by (simp_all add: handler_defs prim_defs init_state_def Let_def)
  have a2: "activeUsers ?st2 ''a'' = None"
    and s2: "userSockets ?st2 2 = Some \<lparr>userId = ''a'', chatId = ''a_b''\<rparr>"
    by (simp_all add: handler_defs prim_defs init_state_def Let_def)
  have n1: "\<not> lockstep ?st1"
    using lockstepD1 [of ?st1 "''a''" 1] a1 s1 by auto
  have n2: "\<not> lockstep ?st2"
    using lockstepD2 [of ?st2 2 "\<lparr>userId = ''a'', chatId = ''a_b''\<rparr>"] a2 s2 by auto
  have t: "\<not> threw (run [PostChats (Some [''b'', ''a'']) \<lparr>p_fault = PostOk, p_now = 1\<rparr>,
      Join 1 (Some \<lparr>j_userId = Some ''a'', j_chatId = Some ''a_b''\<rparr>) False,
      Join 1 (Some \<lparr>j_userId = Some ''b'', j_chatId = Some ''a_b''\<rparr>) False,
      Disconnect 1] init_state)"
     "\<not> threw (run [PostChats (Some [''b'', ''a'']) \<lparr>p_fault = PostOk, p_now = 1\<rparr>,
      Join 1 (Some \<lparr>j_userId = Some ''a'', j_chatId = Some ''a_b''\<rparr>) False,
      Join 2 (Some \<lparr>j_userId = Some ''a'', j_chatId = Some ''a_b''\<rparr>) False,
      Disconnect 1] init_state)"
    by (simp_all add: handler_defs prim_defs init_state_def Let_def)
  show ?thesis using a1 s1 a2 s2 n1 n2 t by blast
qed

subsection \<open>Failures\<close>

lemma join_never_throws: "\<exists>st'. join_handler k data g st = Returned st'"
  by (simp add: join_handler_def split: outcome.splits)

lemma send_never_throws: "\<exists>st'. send_handler k data env st = Returned st'"
  by (simp add: send_handler_def split: outcome.splits)

lemma join_no_payload:
  "join_handler k None g st =
     Returned (st\<lparr>trace := trace st @ [Emit k ''error'' (JStr ''Failed to join chat'')]\<rparr>)"
  by (simp add: join_handler_def join_body_def socket_emit_def)

lemma join_failure_reported:
  assumes "\<not> (case data of None \<Rightarrow> False | Some d \<Rightarrow> join_accepts d g st)"
  shows "\<exists>m. step (Join k data g) st =
            Returned (st\<lparr>trace := trace st @ [Emit k ''error'' (JStr m)]\<rparr>)"
proof (cases data)
  case None
  show ?thesis unfolding None
    by (rule exI [of _ "''Failed to join chat''"]) (simp add: join_no_payload)
next
  case (Some d)
  then have "\<not> join_accepts d g st" using assms by simp
  from join_rejected [OF this] show ?thesis using Some by simp
qed

lemma send_failure_cases:
  assumes "\<not> (case data of None \<Rightarrow> False | Some d \<Rightarrow> send_accepts k d env st)"
  shows "send_handler k data env st =
           Returned (st\<lparr>trace := trace st @ [Emit k ''error'' (JStr ''Failed to send message'')]\<rparr>)
     \<or> send_handler k data env st =
           Returned (st\<lparr>trace := trace st @
             [Emit k ''error'' (JStr ''Not properly connected to chat'')]\<rparr>)
     \<or> send_handler k data env st =
           Returned (st\<lparr>trace := trace st @ [Emit k ''error'' (JStr ''Message cannot be empty'')]\<rparr>)
     \<or> (\<exists>r. send_handler k data env st =
           Returned (st\<lparr>messages := messages st @ [r],
             trace := trace st @ [MessagesAdd r, Emit k ''error'' (JStr ''Failed to send message'')]\<rparr>))"
proof (cases data)
  case None
  then show ?thesis by (simp add: send_handler_def send_body_def socket_emit_def)
next
  case (Some d)
  then have n: "\<not> send_accepts k d env st" using assms by simp
  show ?thesis
  proof (cases "userSockets st k")
    case None
    then show ?thesis
      using \<open>data = Some d\<close> by (simp add: send_handler_def send_body_def socket_emit_def)
  next
    case (Some s)
    then show ?thesis
      using n \<open>data = Some d\<close>
      by (cases "s_fault env")
         (auto simp: send_accepts_def send_handler_def send_body_def prim_defs Let_def
               split: option.splits)
  qed
qed

lemma send_failure_reported:
  assumes "\<not> (case data of None \<Rightarrow> False | Some d \<Rightarrow> send_accepts k d env st)"
  shows "\<exists>m st'. step (SendMessage k data env) st = Returned st'
     \<and> (st' = st\<lparr>trace := trace st @ [Emit k ''error'' (JStr m)]\<rparr>
        \<or> (\<exists>r. st' = st\<lparr>messages := messages st @ [r],
                         trace := trace st @ [MessagesAdd r, Emit k ''error'' (JStr m)]\<rparr>))"
  using send_failure_cases [OF assms] unfolding step.simps by blast

lemma typing_payload:
  "typing_handler k (Some d) st = Returned st \<or>
   (\<exists>s. userSockets st k = Some s \<and>
      typing_handler k (Some d) st =
        Returned (st\<lparr>trace := trace st @
          [Broadcast (chatId s) (rooms st (chatId s) - {k}) ''userTyping''
             (JObj [(''userId'', JStr (userId s)), (''isTyping'', JBool (isTyping d))])]\<rparr>))"
  by (auto simp: typing_handler_def socket_to_emit_def split: option.splits)

lemma typing_unjoined: "userSockets st k = None \<Longrightarrow> typing_handler k data st = Returned st"
  by (simp add: typing_handler_def)

text \<open>
  C9, as the code has it. A join that is not accepted (no payload, a missing field, a store
  fault, an unknown chat, a user who is no participant) returns with one effect: an
  \<^verbatim>\<open>error\<close> event to the originating connection whose payload is a message string.
  A send that does not go through (no payload, no session, an empty message, a store
  fault) returns with that one event to the originating connection, after the added record
  when the fault came after the add. Neither handler throws. A typing event that carries
  a payload does not throw and reports no error: it returns the state unchanged or sends
  \<^verbatim>\<open>userTyping\<close> to the other members of the room. Before a join, a typing event
  and the disconnect handler return the state unchanged.
\<close>

theorem failures_reported_to_sender:
  "(\<not> (case jdata of None \<Rightarrow> False | Some d \<Rightarrow> join_accepts d g st) \<longrightarrow>
      (\<exists>m. step (Join k jdata g) st =
              Returned (st\<lparr>trace := trace st @ [Emit k ''error'' (JStr m)]\<rparr>)))
   \<and> (\<not> (case sdata of None \<Rightarrow> False | Some d \<Rightarrow> send_accepts k d env st) \<longrightarrow>
      (\<exists>m st'. step (SendMessage k sdata env) st = Returned st'
         \<and> (st' = st\<lparr>trace := trace st @ [Emit k ''error'' (JStr m)]\<rparr>
            \<or> (\<exists>r. st' = st\<lparr>messages := messages st @ [r],
                  trace := trace st @ [MessagesAdd r, Emit k ''error'' (JStr m)]\<rparr>))))
   \<and> \<not> threw (step (Join k jdata g) st)
   \<and> \<not> threw (step (SendMessage k sdata env) st)
   \<and> \<not> threw (step (Typing k (Some td)) st)
   \<and> (step (Typing k (Some td)) st = Returned st \<or>
      (\<exists>s. userSockets st k = Some s \<and>
         step (Typing k (Some td)) st =
           Returned (st\<lparr>trace := trace st @
             [Broadcast (chatId s) (rooms st (chatId s) - {k}) ''userTyping''
                (JObj [(''userId'', JStr (userId s)), (''isTyping'', JBool (isTyping td))])]\<rparr>)))
   \<and> (userSockets st k = None \<longrightarrow>
        step (Typing k tdata) st = Returned st \<and> disconnect_handler k st = Returned st)"
proof -
  have j: "\<not> threw (step (Join k jdata g) st)"
    using join_never_throws [of k jdata g st] by auto
  have s: "\<not> threw (step (SendMessage k sdata env) st)"
    using send_never_throws [of k sdata env st] by auto
  have t: "\<not> threw (step (Typing k (Some td)) st)"
    using typing_payload [of k td st] by auto
  show ?thesis
    using join_failure_reported [where data = jdata and g = g and st = st and k = k]
      send_failure_reported [where data = sdata and k = k and env = env and st = st]
      j s t typing_payload [of k td st] typing_unjoined [of st k tdata]
      disconnect_no_session [of st k]
    by simp
qed

theorem failures_reported_to_sender_witness:
  "step (Join 1 (Some \<lparr>j_userId = Some ''c'', j_chatId = Some ''a_b''\<rparr>) True) init_state =
     Returned (init_state\<lparr>trace := [Emit 1 ''error'' (JStr ''Failed to join chat'')]\<rparr>)
   \<and> step (SendMessage 1 None \<lparr>s_fault = SendOk, s_newId = ''m1'', s_addTime = 3, s_updateTime = 4\<rparr>)
        init_state =
     Returned (init_state\<lparr>trace := [Emit 1 ''error'' (JStr ''Failed to send message'')]\<rparr>)
   \<and> step (Typing 1 None) init_state = Returned init_state"
  using failures_reported_to_sender
    [where jdata = "Some \<lparr>j_userId = Some ''c'', j_chatId = Some ''a_b''\<rparr>" and g = True
       and st = init_state and k = 1 and sdata = None
       and env = "\<lparr>s_fault = SendOk, s_newId = ''m1'', s_addTime = 3, s_updateTime = 4\<rparr>"
       and td = "\<lparr>isTyping = True\<rparr>" and tdata = None]
  by (simp add: handler_defs prim_defs init_state_def join_accepts_def)

text \<open>
  The payload of an \<^verbatim>\<open>error\<close> event is a string, not an object with a kind and a
  message; and a typing event without payload from a joined connection throws out of the
  handler, which has no \<^verbatim>\<open>try\<close> around it.
\<close>

theorem failures_reported_counterexample:
  "step (Join 1 (Some \<lparr>j_userId = None, j_chatId = Some ''a_b''\<rparr>) False) init_state =
     Returned (init_state\<lparr>trace := [Emit 1 ''error'' (JStr ''UserId and chatId are required'')]\<rparr>)
   \<and> \<not> tagged_error (JStr ''UserId and chatId are required'')
   \<and> threw (run [PostChats (Some [''b'', ''a'']) \<lparr>p_fault = PostOk, p_now = 1\<rparr>,
        Join 1 (Some \<lparr>j_userId = Some ''a'', j_chatId = Some ''a_b''\<rparr>) False,
        Typing 1 None] init_state)"
  by (simp add: handler_defs prim_defs init_state_def Let_def)

subsection \<open>Room events\<close>

lemma broadcast_post:
  "post_chats ps env st = Returned st' \<Longrightarrow> Broadcast c R n p \<notin> set (emitted st st')"
  by (auto simp: post_chats_def post_chats_body_def prim_defs emitted_def
           split: option.splits if_splits)

lemma broadcast_join:
  "join_handler k data g st = Returned st' \<Longrightarrow> Broadcast c R n p \<in> set (emitted st st') \<Longrightarrow>
     R \<subseteq> rooms st c \<and> n = ''userOnline''"
  by (auto simp: join_handler_def join_body_def prim_defs emitted_def Let_def
           split: option.splits if_splits)

lemma broadcast_send:
  "send_handler k data env st = Returned st' \<Longrightarrow> Broadcast c R n p \<in> set (emitted st st') \<Longrightarrow>
     R \<subseteq> rooms st c \<and> n = ''newMessage''"
  by (auto simp: send_handler_def send_body_def prim_defs emitted_def Let_def
           split: option.splits if_splits)

lemma broadcast_typing:
  "typing_handler k data st = Returned st' \<Longrightarrow> Broadcast c R n p \<in> set (emitted st st') \<Longrightarrow>
     R \<subseteq> rooms st c \<and> n = ''userTyping''"
  by (auto simp: typing_handler_def prim_defs emitted_def split: option.splits if_splits)

lemma broadcast_disconnect:
  "disconnect_handler k (leave_all k st) = Returned st' \<Longrightarrow>
     Broadcast c R n p \<in> set (emitted st st') \<Longrightarrow> R \<subseteq> rooms st c \<and> n = ''userOffline''"
  by (auto simp: disconnect_handler_def prim_defs emitted_def split: option.splits if_splits)

lemma broadcast_step:
  assumes "step e st = Returned st'" and "Broadcast c R n p \<in> set (emitted st st')"
  shows "R \<subseteq> rooms st c \<and> n \<in> set [''newMessage'', ''userTyping'', ''userOnline'', ''userOffline'']"
proof (cases e)
  case (PostChats ps env)
  then show ?thesis using assms broadcast_post by auto
next
  case (Join k data g)
  then show ?thesis using assms broadcast_join [of k data g st st' c R n p] by auto
next
  case (SendMessage k data env)
  then show ?thesis using assms broadcast_send [of k data env st st' c R n p] by auto
next
  case (Typing k data)
  then show ?thesis using assms broadcast_typing [of k data st st' c R n p] by auto
next
  case (Disconnect k)
  then show ?thesis using assms broadcast_disconnect [of k st st' c R n p] by auto
qed

lemma run_io_Client: "run_io (map Client es) st = run es st"
  by (induction es arbitrary: st) (auto split: outcome.splits)

lemma origin_post:
  "post_chats ps env st = Returned st' \<Longrightarrow>
     rooms st' = rooms st \<and> set (trace st) \<subseteq> set (trace st')"
  by (auto simp: post_chats_def post_chats_body_def prim_defs split: option.splits if_splits)

lemma origin_join:
  "join_handler k data g st = Returned st' \<Longrightarrow>
     set (trace st) \<subseteq> set (trace st') \<and>
     (\<forall>j c. j \<in> rooms st' c \<longrightarrow> j \<in> rooms st c \<or> SocketJoin j c \<in> set (trace st'))"
  by (auto simp: join_handler_def join_body_def prim_defs Let_def split: option.splits if_splits)

lemma origin_send:
  "send_handler k data env st = Returned st' \<Longrightarrow>
     rooms st' = rooms st \<and> set (trace st) \<subseteq> set (trace st')"
  by (auto simp: send_handler_def send_body_def prim_defs Let_def split: option.splits if_splits)

lemma origin_typing:
  "typing_handler k data st = Returned st' \<Longrightarrow>
     rooms st' = rooms st \<and> set (trace st) \<subseteq> set (trace st')"
  by (auto simp: typing_handler_def prim_defs split: option.splits if_splits)

lemma origin_disconnect:
  "disconnect_handler k (leave_all k st) = Returned st' \<Longrightarrow>
     set (trace st) \<subseteq> set (trace st') \<and> (\<forall>c. rooms st' c \<subseteq> rooms st c)"
  by (auto simp: disconnect_handler_def prim_defs split: option.splits if_splits)

lemma origin_step:
  assumes "step e st = Returned st'"
  shows "set (trace st) \<subseteq> set (trace st') \<and>
     (\<forall>j c. j \<in> rooms st' c \<longrightarrow> j \<in> rooms st c \<or> SocketJoin j c \<in> set (trace st'))"
proof (cases e)
  case (PostChats ps env)
  then show ?thesis using assms origin_post [of ps env st st'] by simp
next
  case (Join k data g)
  then show ?thesis using assms origin_join [of k data g st st'] by simp
next
  case (SendMessage k data env)
  then show ?thesis using assms origin_send [of k data env st st'] by simp
next
  case (Typing k data)
  then show ?thesis using assms origin_typing [of k data st st'] by simp
next
  case (Disconnect k)
  then show ?thesis using assms origin_disconnect [of k st st'] by auto
qed

lemma origin_step_io:
  assumes "step_io e st = Returned st'"
  shows "set (trace st) \<subseteq> set (trace st') \<and>
     (\<forall>j c. j \<in> rooms st' c \<longrightarrow>
        j \<in> rooms st c \<or> SocketJoin j c \<in> set (trace st') \<or> e = Connection j c)"
proof (cases e)
  case (Connection k ident)
  then show ?thesis using assms by (auto simp: on_connection_def split: if_splits)
next
  case (Client ev)
  then show ?thesis using assms origin_step [of ev st st'] by auto
qed

lemma origin_run_io:
  "run_io es st = Returned st' \<Longrightarrow>
     set (trace st) \<subseteq> set (trace st') \<and>
     (\<forall>j c. j \<in> rooms st' c \<longrightarrow>
        j \<in> rooms st c \<or> SocketJoin j c \<in> set (trace st') \<or> Connection j c \<in> set es)"
proof (induction es arbitrary: st)
  case Nil
  then show ?case by simp
next
  case (Cons e es)
  from Cons.prems obtain st1 where s1: "step_io e st = Returned st1"
    and r: "run_io es st1 = Returned st'"
    by (auto split: outcome.splits)
  note a = origin_step_io [OF s1]
  note b = Cons.IH [OF r]
  have tr: "set (trace st) \<subseteq> set (trace st')" using a b by blast
  have "j \<in> rooms st c \<or> SocketJoin j c \<in> set (trace st') \<or> Connection j c \<in> set (e # es)"
    if "j \<in> rooms st' c" for j c
  proof -
    from b that consider "j \<in> rooms st1 c" | "SocketJoin j c \<in> set (trace st')"
      | "Connection j c \<in> set es" by blast
    then show ?thesis
    proof cases
      case 1
      with a consider "j \<in> rooms st c" | "SocketJoin j c \<in> set (trace st1)" | "e = Connection j c"
        by blast
      then show ?thesis using b by cases auto
    qed auto
  qed
  then show ?case using tr by blast
qed

text \<open>
  C2, as the code has it. In a state reached by a run with connections, every connection
  that a step sends a room event to (\<^verbatim>\<open>newMessage\<close>, \<^verbatim>\<open>userTyping\<close>,
  \<^verbatim>\<open>userOnline\<close>, \<^verbatim>\<open>userOffline\<close>) for a chat is a member of the Socket.IO room
  named by the chat id at that moment: it entered that room by an accepted join to that
  chat, or the chat id is the id it was given when it connected. Membership is the room
  list of Socket.IO, which a later join to another chat does not leave.
\<close>

theorem broadcast_only_to_room_members:
  assumes "run_io es init_state = Returned st"
    and "step e st = Returned st'"
    and "Broadcast c R name payload \<in> set (emitted st st')"
    and "k \<in> R"
  shows "k \<in> rooms st c
     \<and> (SocketJoin k c \<in> set (trace st) \<or> Connection k c \<in> set es)
     \<and> name \<in> set [''newMessage'', ''userTyping'', ''userOnline'', ''userOffline'']"
proof -
  have "R \<subseteq> rooms st c"
    and n: "name \<in> set [''newMessage'', ''userTyping'', ''userOnline'', ''userOffline'']"
    using broadcast_step [OF assms(2) assms(3)] by blast+
  then have k: "k \<in> rooms st c" using assms(4) by blast
  have "k \<in> rooms init_state c \<or> SocketJoin k c \<in> set (trace st) \<or> Connection k c \<in> set es"
    using origin_run_io [OF assms(1)] k by blast
  then have "SocketJoin k c \<in> set (trace st) \<or> Connection k c \<in> set es"
    by (simp add: init_state_def)
  then show ?thesis using k n by blast
qed

theorem broadcast_only_to_room_members_witness:
  "1 \<in> rooms (state_of (run_io [Connection 1 ''s1'', Connection 3 ''a_b'',
        Client (PostChats (Some [''b'', ''a'']) \<lparr>p_fault = PostOk, p_now = 1\<rparr>),
        Client (Join 1 (Some \<lparr>j_userId = Some ''a'', j_chatId = Some ''a_b''\<rparr>) False),
        Connection 2 ''s2''] init_state)) ''a_b''
   \<and> SocketJoin 1 ''a_b'' \<in> set (trace (state_of (run_io [Connection 1 ''s1'',
        Connection 3 ''a_b'',
        Client (PostChats (Some [''b'', ''a'']) \<lparr>p_fault = PostOk, p_now = 1\<rparr>),
        Client (Join 1 (Some \<lparr>j_userId = Some ''a'', j_chatId = Some ''a_b''\<rparr>) False),
        Connection 2 ''s2''] init_state)))
   \<and> emitted
        (state_of (run_io [Connection 1 ''s1'', Connection 3 ''a_b'',
          Client (PostChats (Some [''b'', ''a'']) \<lparr>p_fault = PostOk, p_now = 1\<rparr>),
          Client (Join 1 (Some \<lparr>j_userId = Some ''a'', j_chatId = Some ''a_b''\<rparr>) False),
          Connection 2 ''s2''] init_state))
        (state_of (step (Join 2 (Some \<lparr>j_userId = Some ''b'', j_chatId = Some ''a_b''\<rparr>) False)
          (state_of (run_io [Connection 1 ''s1'', Connection 3 ''a_b'',
            Client (PostChats (Some [''b'', ''a'']) \<lparr>p_fault = PostOk, p_now = 1\<rparr>),
            Client (Join 1 (Some \<lparr>j_userId = Some ''a'', j_chatId = Some ''a_b''\<rparr>) False),
            Connection 2 ''s2''] init_state))))
      = [SocketJoin 2 ''a_b'', ActiveUsersSet ''b'' 2,
         UserSocketsSet 2 \<lparr>userId = ''b'', chatId = ''a_b''\<rparr>,
         Broadcast ''a_b'' {1, 3} ''userOnline'' (JObj [(''userId'', JStr ''b'')]),
         Emit 2 ''joined'' (JObj [(''chatId'', JStr ''a_b''), (''userId'', JStr ''b'')])]
   \<and> 3 \<in> rooms (state_of (run_io [Connection 1 ''s1'', Connection 3 ''a_b'',
        Client (PostChats (Some [''b'', ''a'']) \<lparr>p_fault = PostOk, p_now = 1\<rparr>),
        Client (Join 1 (Some \<lparr>j_userId = Some ''a'', j_chatId = Some ''a_b''\<rparr>) False),
        Connection 2 ''s2''] init_state)) ''a_b''
   \<and> SocketJoin 3 ''a_b'' \<notin> set (trace (state_of (run_io [Connection 1 ''s1'',
        Connection 3 ''a_b'',
        Client (PostChats (Some [''b'', ''a'']) \<lparr>p_fault = PostOk, p_now = 1\<rparr>),
        Client (Join 1 (Some \<lparr>j_userId = Some ''a'', j_chatId = Some ''a_b''\<rparr>) False),
        Connection 2 ''s2''] init_state)))"
proof -
  let ?es = "[Connection 1 ''s1'', Connection 3 ''a_b'',
        Client (PostChats (Some [''b'', ''a'']) \<lparr>p_fault = PostOk, p_now = 1\<rparr>),
        Client (Join 1 (Some \<lparr>j_userId = Some ''a'', j_chatId = Some ''a_b''\<rparr>) False),
        Connection 2 ''s2'']"
  let ?st = "state_of (run_io ?es init_state)"
  let ?e = "Join 2 (Some \<lparr>j_userId = Some ''b'', j_chatId = Some ''a_b''\<rparr>) False"
  let ?st' = "state_of (step ?e ?st)"
  have r: "run_io ?es init_state = Returned ?st"
    by (simp add: handler_defs prim_defs init_state_def Let_def on_connection_def)
  have s: "step ?e ?st = Returned ?st'"
    by (simp add: handler_defs prim_defs init_state_def Let_def on_connection_def)
  have em: "emitted ?st ?st' = [SocketJoin 2 ''a_b'', ActiveUsersSet ''b'' 2,
         UserSocketsSet 2 \<lparr>userId = ''b'', chatId = ''a_b''\<rparr>,
         Broadcast ''a_b'' {1, 3} ''userOnline'' (JObj [(''userId'', JStr ''b'')]),
         Emit 2 ''joined'' (JObj [(''chatId'', JStr ''a_b''), (''userId'', JStr ''b'')])]"
    by (auto simp add: handler_defs prim_defs init_state_def Let_def on_connection_def emitted_def)
  have b: "Broadcast ''a_b'' {1, 3} ''userOnline'' (JObj [(''userId'', JStr ''b'')])
             \<in> set (emitted ?st ?st')"
    unfolding em by simp
  have k1: "(1::nat) \<in> {1, 3}" and k3: "(3::nat) \<in> {1, 3}" by simp_all
  have n3: "SocketJoin 3 ''a_b'' \<notin> set (trace ?st)"
    by (simp add: handler_defs prim_defs init_state_def Let_def on_connection_def)
  have n1: "Connection 1 ''a_b'' \<notin> set ?es" by simp
  from broadcast_only_to_room_members [OF r s b k1] broadcast_only_to_room_members [OF r s b k3]
    em n3 n1
  show ?thesis by blast
qed

text \<open>
  Connection 1 joins the chat \<open>a_b\<close> and then the chat \<open>a_c\<close>: its session names
  \<open>a_c\<close>, and a message sent in \<open>a_b\<close> by connection 2 is still delivered to it.
\<close>

theorem broadcast_by_session_counterexample:
  "\<not> threw (run [PostChats (Some [''b'', ''a'']) \<lparr>p_fault = PostOk, p_now = 1\<rparr>,
        PostChats (Some [''c'', ''a'']) \<lparr>p_fault = PostOk, p_now = 2\<rparr>,
        Join 1 (Some \<lparr>j_userId = Some ''a'', j_chatId = Some ''a_b''\<rparr>) False,
        Join 1 (Some \<lparr>j_userId = Some ''a'', j_chatId = Some ''a_c''\<rparr>) False,
        Join 2 (Some \<lparr>j_userId = Some ''b'', j_chatId = Some ''a_b''\<rparr>) False] init_state)
   \<and> userSockets (state_of (run [PostChats (Some [''b'', ''a'']) \<lparr>p_fault = PostOk, p_now = 1\<rparr>,
        PostChats (Some [''c'', ''a'']) \<lparr>p_fault = PostOk, p_now = 2\<rparr>,
        Join 1 (Some \<lparr>j_userId = Some ''a'', j_chatId = Some ''a_b''\<rparr>) False,
        Join 1 (Some \<lparr>j_userId = Some ''a'', j_chatId = Some ''a_c''\<rparr>) False,
        Join 2 (Some \<lparr>j_userId = Some ''b'', j_chatId = Some ''a_b''\<rparr>) False] init_state)) 1
      = Some \<lparr>userId = ''a'', chatId = ''a_c''\<rparr>
   \<and> emitted
        (state_of (run [PostChats (Some [''b'', ''a'']) \<lparr>p_fault = PostOk, p_now = 1\<rparr>,
        PostChats (Some [''c'', ''a'']) \<lparr>p_fault = PostOk, p_now = 2\<rparr>,
        Join 1 (Some \<lparr>j_userId = Some ''a'', j_chatId = Some ''a_b''\<rparr>) False,
        Join 1 (Some \<lparr>j_userId = Some ''a'', j_chatId = Some ''a_c''\<rparr>) False,
        Join 2 (Some \<lparr>j_userId = Some ''b'', j_chatId = Some ''a_b''\<rparr>) False] init_state))
        (state_of (step (SendMessage 2 (Some \<lparr>message = Some ''hi'', timestamp = None\<rparr>)
                     \<lparr>s_fault = SendOk, s_newId = ''m1'', s_addTime = 3, s_updateTime = 4\<rparr>)
        (state_of (run [PostChats (Some [''b'', ''a'']) \<lparr>p_fault = PostOk, p_now = 1\<rparr>,
        PostChats (Some [''c'', ''a'']) \<lparr>p_fault = PostOk, p_now = 2\<rparr>,
        Join 1 (Some \<lparr>j_userId = Some ''a'', j_chatId = Some ''a_b''\<rparr>) False,
        Join 1 (Some \<lparr>j_userId = Some ''a'', j_chatId = Some ''a_c''\<rparr>) False,
        Join 2 (Some \<lparr>j_userId = Some ''b'', j_chatId = Some ''a_b''\<rparr>) False] init_state))))
      = [MessagesAdd \<lparr>m_id = ''m1'', m_senderId = ''b'', m_message = ''hi'', m_timestamp = 3,
                       m_chatId = ''a_b''\<rparr>,
         ChatsUpdate ''a_b'' ''hi'' 4,
         Broadcast ''a_b'' {1, 2} ''newMessage''
           (JObj [(''id'', JStr ''m1''), (''senderId'', JStr ''b''), (''message'', JStr ''hi''),
                  (''timestamp'', JNum 3), (''chatId'', JStr ''a_b'')])]"
  by (auto simp add: handler_defs prim_defs init_state_def Let_def emitted_def trim_def
        js_whitespace_def)

end
